theory Spec2Isabelle
  imports Complex_Main "HOL-Library.Multiset"
begin

section \<open>Exceptions as values\<close>

text \<open>
  Every exception the modelled code can raise is a value of \<open>error\<close>; a computation that may
  raise returns \<open>error + 'a\<close> with \<open>Inl\<close> for the raised exception.
  \<open>HTTPError\<close> is the exception of \<open>Response.raise_for_status()\<close> of the HTTP library and
  carries the status code; \<open>ConnectionError\<close> stands for the transport failures of the same
  library (connection refused, timeout).  \<open>APIError\<close> is the class that
  \<open>src/data/fetchers.py\<close> imports and catches; no code under \<open>src/api\<close> raises it.
\<close>

datatype error =
    HTTPError nat
  | ConnectionError
  | JSONDecodeError
  | ValueError string
  | TypeError
  | KeyError string
  | AttributeError
  | OverflowError
  | APIError nat string

text \<open>The Python class of a raised exception, followed by its base classes.\<close>

fun exc_mro :: "error \<Rightarrow> string list" where
  "exc_mro (HTTPError _) = [''HTTPError'', ''RequestException'', ''OSError'', ''Exception'']"
| "exc_mro ConnectionError = [''ConnectionError'', ''RequestException'', ''OSError'', ''Exception'']"
| "exc_mro JSONDecodeError = [''JSONDecodeError'', ''ValueError'', ''Exception'']"
| "exc_mro (ValueError _) = [''ValueError'', ''Exception'']"
| "exc_mro TypeError = [''TypeError'', ''Exception'']"
| "exc_mro (KeyError _) = [''KeyError'', ''LookupError'', ''Exception'']"
| "exc_mro AttributeError = [''AttributeError'', ''Exception'']"
| "exc_mro OverflowError = [''OverflowError'', ''ArithmeticError'', ''Exception'']"
| "exc_mro (APIError _ _) = [''APIError'', ''Exception'']"

definition isinstance_exc :: "error \<Rightarrow> string \<Rightarrow> bool" where
  "isinstance_exc e cls = (cls \<in> set (exc_mro e))"

text \<open>Sequencing of computations that may raise: the first exception aborts the rest.\<close>

definition and_then :: "error + 'a \<Rightarrow> ('a \<Rightarrow> error + 'b) \<Rightarrow> error + 'b" where
  "and_then m f = (case m of Inl e \<Rightarrow> Inl e | Inr v \<Rightarrow> f v)"

section \<open>The outside world of the API layer\<close>

text \<open>
  An HTTP response as the code reads it: the status code, the body as text, and what
  \<open>resp.json()\<close> yields (the parsed body, or the exception of the parser).
\<close>

record 'j response =
  status_code :: nat
  body_text :: string
  json_body :: "error + 'j"

text \<open>An outbound data request: method, URL, the value of the \<open>TGT\<close> header, the JSON payload.\<close>

record 'p http_request =
  http_method :: string
  url :: string
  tgt_header :: "string option"
  payload :: 'p

text \<open>
  The environment answers the I/O actions of the code, each indexed by how many actions of
  its kind were performed before: the \<open>k\<close>-th reading of \<open>time.time()\<close> (seconds, as a real
  number: floating-point rounding is not modelled), the outcome of the \<open>k\<close>-th POST to the
  authentication URL with its form body, and the outcome of the \<open>k\<close>-th \<open>session.request\<close>.
  An outcome is a response, or the exception of the HTTP library when there is none.
\<close>

record ('p, 'j) env =
  time_time :: "nat \<Rightarrow> real"
  auth_post :: "nat \<Rightarrow> string \<Rightarrow> error + 'j response"
  session_request :: "nat \<Rightarrow> 'p http_request \<Rightarrow> error + 'j response"

text \<open>The trace of the I/O performed so far.\<close>

record 'p io =
  time_reads :: nat
  auth_posts :: "string list"
  sent :: "'p http_request list"

definition io0 :: "'p io" where
  "io0 = \<lparr>time_reads = 0, auth_posts = [], sent = []\<rparr>"

text \<open>\<open>Response.raise_for_status()\<close>: raises for the status codes 400 to 599 and no other.\<close>

definition raise_for_status :: "'j response \<Rightarrow> error + unit" where
  "raise_for_status resp =
     (if 400 \<le> status_code resp \<and> status_code resp < 600
      then Inl (HTTPError (status_code resp)) else Inr ())"

section \<open>src/api/auth.py\<close>

definition TTL_SECONDS :: real where
  "TTL_SECONDS = 2 * 60 * 60"

record TGTManager =
  username :: string
  password :: string
  token :: "string option"
  expires_at :: real

text \<open>\<open>TGTManager.__init__\<close>\<close>

definition TGTManager_init :: "string \<Rightarrow> string \<Rightarrow> TGTManager" where
  "TGTManager_init u p = \<lparr>username = u, password = p, token = None, expires_at = 0\<rparr>"

text \<open>
  \<open>str.strip()\<close> and \<open>str.startswith\<close>.  A character is a code point below 256; the
  white space of Python among these is listed.
\<close>

definition isspace :: "char \<Rightarrow> bool" where
  "isspace c = ((of_char c :: nat) \<in> {9, 10, 11, 12, 13, 28, 29, 30, 31, 32, 133, 160})"

definition strip :: "string \<Rightarrow> string" where
  "strip s = rev (dropWhile isspace (rev (dropWhile isspace s)))"

definition startswith :: "string \<Rightarrow> string \<Rightarrow> bool" where
  "startswith s p = (take (length p) s = p)"

text \<open>
  \<open>TGTManager._request_new_token\<close>: one POST of the credentials; the exception of the
  library, of \<open>raise_for_status\<close> or of the format check is raised after the POST was made.
\<close>

definition request_new_token ::
  "('p, 'j) env \<Rightarrow> TGTManager \<Rightarrow> 'p io \<Rightarrow> (error + string) \<times> 'p io" where
  "request_new_token E mgr io =
     (let form = ''username='' @ username mgr @ ''&password='' @ password mgr;
          io' = io\<lparr>auth_posts := auth_posts io @ [form]\<rparr>
      in case auth_post E (length (auth_posts io)) form of
           Inl e \<Rightarrow> (Inl e, io')
         | Inr resp \<Rightarrow>
             (case raise_for_status resp of
                Inl e \<Rightarrow> (Inl e, io')
              | Inr _ \<Rightarrow>
                  (let tok = strip (body_text resp)
                   in if \<not> startswith tok ''TGT-''
                      then (Inl (ValueError ''Unexpected token format returned by CAS''), io')
                      else (Inr tok, io'))))"

text \<open>
  \<open>TGTManager.current\<close>.  With \<open>force_refresh\<close> the clock is not read in the condition
  (\<open>or\<close> short-circuits).  When the token request raises, neither field is assigned.
  The value returned is \<open>self._token\<close>, which is \<open>None\<close> only if no refresh ever happened.
\<close>

definition current ::
  "('p, 'j) env \<Rightarrow> bool \<Rightarrow> TGTManager \<times> 'p io \<Rightarrow> (error + string option) \<times> TGTManager \<times> 'p io" where
  "current E force_refresh s =
     (let mgr = fst s; io = snd s;
          refresh = (force_refresh \<or> time_time E (time_reads io) \<ge> expires_at mgr);
          io1 = (if force_refresh then io else io\<lparr>time_reads := Suc (time_reads io)\<rparr>)
      in if refresh
         then (case request_new_token E mgr io1 of
                 (Inl e, io2) \<Rightarrow> (Inl e, mgr, io2)
               | (Inr tok, io2) \<Rightarrow>
                   (Inr (Some tok),
                    mgr\<lparr>token := Some tok,
                        expires_at := time_time E (time_reads io2) + TTL_SECONDS - 60\<rparr>,
                    io2\<lparr>time_reads := Suc (time_reads io2)\<rparr>))
         else (Inr (token mgr), mgr, io1))"

text \<open>
  A run of \<open>current()\<close> calls, one per \<open>force_refresh\<close> flag of the list.  For every call
  that returns, the run records the value returned, the last clock reading of the call, the
  clock reading at which the returned ticket was acquired (the reading of the refresh that
  obtained it), and the expiry cached after the call.  A call that raises records nothing
  and the run goes on from the state it left.
\<close>

fun run_current ::
  "('p, 'j) env \<Rightarrow> TGTManager \<times> 'p io \<Rightarrow> real \<Rightarrow> bool list \<Rightarrow>
     (string option \<times> real \<times> real \<times> real) list" where
  "run_current E s acq [] = []"
| "run_current E s acq (f # fs) =
     (case current E f s of
        (Inl e, mgr', io') \<Rightarrow> run_current E (mgr', io') acq fs
      | (Inr tok, mgr', io') \<Rightarrow>
          (let now = time_time E (time_reads io' - 1);
               acq' = (if length (auth_posts io') > length (auth_posts (snd s)) then now else acq)
           in (tok, now, acq', expires_at mgr') # run_current E (mgr', io') acq' fs))"

text \<open>The cached expiry belongs to the cached ticket: acquisition plus validity minus 60.\<close>

definition ticket_inv :: "TGTManager \<Rightarrow> real \<Rightarrow> bool" where
  "ticket_inv mgr acq = (token mgr \<noteq> None \<longrightarrow> expires_at mgr = acq + TTL_SECONDS - 60)"

section \<open>src/api/epias.py\<close>

definition BASE :: string where
  "BASE = ''https://seffaflik.epias.com.tr/electricity-service/v1''"

text \<open>
  \<open>EpiasClient._request\<close>.  The client's state is its ticket manager.  The headers other
  than \<open>TGT\<close> are constants and are left out of the request record.  The retry sends the
  same method, URL and payload with the refreshed ticket.
\<close>

definition EpiasClient_request ::
  "('p, 'j) env \<Rightarrow> string \<Rightarrow> string \<Rightarrow> 'p \<Rightarrow> TGTManager \<times> 'p io \<Rightarrow>
     (error + 'j) \<times> TGTManager \<times> 'p io" where
  "EpiasClient_request E method path kwargs s =
     (case current E False s of
        (Inl e, mgr1, io1) \<Rightarrow> (Inl e, mgr1, io1)
      | (Inr tok, mgr1, io1) \<Rightarrow>
          (let req = \<lparr>http_method = method, url = BASE @ path, tgt_header = tok,
                      payload = kwargs\<rparr>;
               io2 = io1\<lparr>sent := sent io1 @ [req]\<rparr>
           in case session_request E (length (sent io1)) req of
                Inl e \<Rightarrow> (Inl e, mgr1, io2)
              | Inr resp \<Rightarrow>
                  if status_code resp = 401 \<or> status_code resp = 406
                  then (case current E True (mgr1, io2) of
                          (Inl e, mgr2, io3) \<Rightarrow> (Inl e, mgr2, io3)
                        | (Inr tok2, mgr2, io3) \<Rightarrow>
                            (let req2 = req\<lparr>tgt_header := tok2\<rparr>;
                                 io4 = io3\<lparr>sent := sent io3 @ [req2]\<rparr>
                             in case session_request E (length (sent io3)) req2 of
                                  Inl e \<Rightarrow> (Inl e, mgr2, io4)
                                | Inr resp2 \<Rightarrow>
                                    (and_then (raise_for_status resp2) (\<lambda>_. json_body resp2),
                                     mgr2, io4)))
                  else (and_then (raise_for_status resp) (\<lambda>_. json_body resp), mgr1, io2)))"

text \<open>\<open>EpiasClient.get\<close> and \<open>EpiasClient.post\<close>\<close>

definition EpiasClient_get ::
  "('p, 'j) env \<Rightarrow> string \<Rightarrow> 'p \<Rightarrow> TGTManager \<times> 'p io \<Rightarrow> (error + 'j) \<times> TGTManager \<times> 'p io" where
  "EpiasClient_get E path params s = EpiasClient_request E ''GET'' path params s"

definition EpiasClient_post ::
  "('p, 'j) env \<Rightarrow> string \<Rightarrow> 'p \<Rightarrow> TGTManager \<times> 'p io \<Rightarrow> (error + 'j) \<times> TGTManager \<times> 'p io" where
  "EpiasClient_post E path pl s = EpiasClient_request E ''POST'' path pl s"

section \<open>Python values of a decoded JSON body\<close>

text \<open>
  The values \<open>json.loads\<close> produces.  The type \<open>'f\<close> is Python's \<open>float\<close>, kept abstract.
  A dict is the list of its items in insertion order; \<open>map_of\<close> looks a key up.
\<close>

datatype 'f json =
    JNull
  | JBool bool
  | JInt int
  | JFloat 'f
  | JStr string
  | JList "'f json list"
  | JDict "(string \<times> 'f json) list"

text \<open>
  A pandas timestamp: \<open>NaT\<close>, or the wall-clock time in nanoseconds since the epoch with the
  offset of its time zone (\<open>None\<close> when it is naive).  The bounds of the representable range
  are not modelled.
\<close>

datatype timestamp = NaT | Timestamp int "int option"

text \<open>
  What the code takes from the interpreter and from pandas, as parameters: the conversions
  \<open>float(n)\<close>, \<open>float(s)\<close>, \<open>int(x)\<close>, \<open>int(s)\<close> on an int, a string or a float, the truth
  value of a float, and \<open>pd.to_datetime(x)\<close> without and with \<open>format="%Y-%m-%d"\<close>.
\<close>

record 'f pylib =
  float_of_int :: "int \<Rightarrow> error + 'f"
  float_of_str :: "string \<Rightarrow> error + 'f"
  int_of_float :: "'f \<Rightarrow> error + int"
  int_of_str :: "string \<Rightarrow> error + int"
  float_nonzero :: "'f \<Rightarrow> bool"
  to_datetime :: "'f json \<Rightarrow> error + timestamp"
  to_datetime_ymd :: "'f json \<Rightarrow> error + timestamp"

text \<open>\<open>bool(x)\<close>, as \<open>if x\<close>, \<open>not x\<close> and \<open>x or y\<close> use it.\<close>

fun truthy :: "'f pylib \<Rightarrow> 'f json \<Rightarrow> bool" where
  "truthy L JNull = False"
| "truthy L (JBool b) = b"
| "truthy L (JInt n) = (n \<noteq> 0)"
| "truthy L (JFloat x) = float_nonzero L x"
| "truthy L (JStr s) = (s \<noteq> [])"
| "truthy L (JList xs) = (xs \<noteq> [])"
| "truthy L (JDict kvs) = (kvs \<noteq> [])"

definition py_or :: "'f pylib \<Rightarrow> 'f json \<Rightarrow> 'f json \<Rightarrow> 'f json" where
  "py_or L a b = (if truthy L a then a else b)"

text \<open>\<open>float(x)\<close> and \<open>int(x)\<close>\<close>

fun py_float :: "'f pylib \<Rightarrow> 'f json \<Rightarrow> error + 'f" where
  "py_float L (JFloat x) = Inr x"
| "py_float L (JInt n) = float_of_int L n"
| "py_float L (JBool b) = float_of_int L (if b then 1 else 0)"
| "py_float L (JStr s) = float_of_str L s"
| "py_float L JNull = Inl TypeError"
| "py_float L (JList xs) = Inl TypeError"
| "py_float L (JDict kvs) = Inl TypeError"

fun py_int :: "'f pylib \<Rightarrow> 'f json \<Rightarrow> error + int" where
  "py_int L (JInt n) = Inr n"
| "py_int L (JBool b) = Inr (if b then 1 else 0)"
| "py_int L (JFloat x) = int_of_float L x"
| "py_int L (JStr s) = int_of_str L s"
| "py_int L JNull = Inl TypeError"
| "py_int L (JList xs) = Inl TypeError"
| "py_int L (JDict kvs) = Inl TypeError"

text \<open>\<open>isinstance(x, dict)\<close>\<close>

fun is_dict :: "'f json \<Rightarrow> bool" where
  "is_dict (JDict kvs) = True"
| "is_dict _ = False"

text \<open>\<open>d.get(k, default)\<close> on a dict.\<close>

definition dict_get :: "(string \<times> 'f json) list \<Rightarrow> string \<Rightarrow> 'f json \<Rightarrow> 'f json" where
  "dict_get kvs k d = (case map_of kvs k of Some v \<Rightarrow> v | None \<Rightarrow> d)"


text \<open>\<open>k in s\<close> on strings: \<open>k\<close> occurs in \<open>s\<close> as a substring.\<close>

fun str_contains :: "string \<Rightarrow> string \<Rightarrow> bool" where
  "str_contains k [] = (k = [])"
| "str_contains k (c # cs) = (startswith (c # cs) k \<or> str_contains k cs)"

text \<open>
  \<open>k in x\<close> for a string \<open>k\<close>: a key of a dict, an element of a list (a string equals
  only the same string), a substring of a string; the other values are not containers.
\<close>

fun py_contains :: "string \<Rightarrow> 'f json \<Rightarrow> error + bool" where
  "py_contains k (JDict kvs) = Inr (k \<in> set (map fst kvs))"
| "py_contains k (JList xs) = Inr (JStr k \<in> set xs)"
| "py_contains k (JStr s) = Inr (str_contains k s)"
| "py_contains k _ = Inl TypeError"

text \<open>\<open>x[k]\<close> for a string \<open>k\<close>: only a dict is indexed by a string.\<close>

fun py_getitem :: "'f json \<Rightarrow> string \<Rightarrow> error + 'f json" where
  "py_getitem (JDict kvs) k = (case map_of kvs k of Some v \<Rightarrow> Inr v | None \<Rightarrow> Inl (KeyError k))"
| "py_getitem _ k = Inl TypeError"

text \<open>\<open>for item in x\<close>: the elements of a list, the keys of a dict, the characters of a string.\<close>

fun py_iter :: "'f json \<Rightarrow> error + 'f json list" where
  "py_iter (JList xs) = Inr xs"
| "py_iter (JDict kvs) = Inr (map (\<lambda>kv. JStr (fst kv)) kvs)"
| "py_iter (JStr s) = Inr (map (\<lambda>c. JStr [c]) s)"
| "py_iter _ = Inl TypeError"

text \<open>\<open>try: ... except: ...\<close> with a handler for every exception.\<close>

definition try_except :: "error + 'a \<Rightarrow> (error \<Rightarrow> error + 'a) \<Rightarrow> error + 'a" where
  "try_except m h = (case m of Inl e \<Rightarrow> h e | Inr v \<Rightarrow> Inr v)"

text \<open>
  A loop that appends to \<open>records\<close>: the rows of each item in turn; the first exception
  leaves the loop and the function.
\<close>

fun for_records :: "('a \<Rightarrow> error + 'b list) \<Rightarrow> 'a list \<Rightarrow> error + 'b list" where
  "for_records f [] = Inr []"
| "for_records f (x # xs) =
     and_then (f x) (\<lambda>rs. and_then (for_records f xs) (\<lambda>rest. Inr (rs @ rest)))"

section \<open>Timestamps and tables\<close>

definition HOUR_NS :: int where
  "HOUR_NS = 3600000000000"

text \<open>\<open>dt.hour if pd.notna(dt) else 0\<close>\<close>

fun hour_or_0 :: "timestamp \<Rightarrow> int" where
  "hour_or_0 NaT = 0"
| "hour_or_0 (Timestamp w tz) = (w div HOUR_NS) mod 24"






text \<open>
  A cell of a table, and a row as the dict the code appends to \<open>records\<close>.  A table has its
  column labels, the label of the column moved to the index (if any), and its rows; a row
  keeps the cell of the index column under its label.
\<close>

datatype 'f cell = CTime timestamp | CFloat 'f | CInt int | CObj "'f json"

type_synonym 'f row = "(string \<times> 'f cell) list"

record 'f DataFrame =
  columns :: "string list"
  index_name :: "string option"
  rows :: "'f row list"

text \<open>\<open>pd.DataFrame(columns=cols)\<close>; \<open>pd.DataFrame()\<close> is \<open>DataFrame_columns []\<close>.\<close>

definition DataFrame_columns :: "string list \<Rightarrow> 'f DataFrame" where
  "DataFrame_columns cols = \<lparr>columns = cols, index_name = None, rows = []\<rparr>"

text \<open>\<open>pd.DataFrame(records)\<close>: the columns are the keys of the records, in order of first appearance.\<close>

definition DataFrame_records :: "'f row list \<Rightarrow> 'f DataFrame" where
  "DataFrame_records records =
     \<lparr>columns = rev (remdups (rev (concat (map (map fst) records)))),
      index_name = None, rows = records\<rparr>"


text \<open>The timestamp of a row in a column (a missing cell is a missing value).\<close>

definition row_time :: "string \<Rightarrow> 'f row \<Rightarrow> timestamp" where
  "row_time by r = (case map_of r by of Some (CTime t) \<Rightarrow> t | _ \<Rightarrow> NaT)"

fun is_naive :: "timestamp \<Rightarrow> bool" where
  "is_naive (Timestamp w None) = True"
| "is_naive _ = False"

fun is_aware :: "timestamp \<Rightarrow> bool" where
  "is_aware (Timestamp w (Some off)) = True"
| "is_aware _ = False"

text \<open>The instant a timestamp is ordered by: the wall-clock time less the offset.\<close>

fun ts_instant :: "timestamp \<Rightarrow> int" where
  "ts_instant NaT = 0"
| "ts_instant (Timestamp w None) = w"
| "ts_instant (Timestamp w (Some off)) = w - off"

text \<open>
  \<open>df.sort_values(by)\<close> on a column of timestamps, as every call of it in
  \<open>processors.py\<close> is: \<open>KeyError\<close> when the table has no such column; the rows with a
  timestamp in ascending order, then the rows with \<open>NaT\<close>; comparing a naive with an aware
  timestamp raises \<open>TypeError\<close>.  Rows with equal keys are kept in their order here; the
  library does not promise that.
\<close>

definition sort_values :: "'f DataFrame \<Rightarrow> string \<Rightarrow> error + 'f DataFrame" where
  "sort_values df by =
     (if by \<notin> set (columns df) then Inl (KeyError by)
      else
        (let valid = filter (\<lambda>r. row_time by r \<noteq> NaT) (rows df);
             na = filter (\<lambda>r. row_time by r = NaT) (rows df)
         in if (\<exists>r \<in> set valid. is_naive (row_time by r)) \<and> (\<exists>r \<in> set valid. is_aware (row_time by r))
            then Inl TypeError
            else Inr (df\<lparr>rows := sort_key (\<lambda>r. ts_instant (row_time by r)) valid @ na\<rparr>)))"

text \<open>\<open>df.set_index(col)\<close>\<close>

definition set_index :: "'f DataFrame \<Rightarrow> string \<Rightarrow> error + 'f DataFrame" where
  "set_index df col =
     (if col \<notin> set (columns df) then Inl (KeyError col)
      else Inr (df\<lparr>columns := removeAll col (columns df), index_name := Some col\<rparr>))"

section \<open>src/data/processors.py\<close>

text \<open>
  \<open>DataProcessor.extract_content\<close>.  The value under the key is returned as it is, whatever
  it is.  The test \<open>"content" in response["body"]\<close> raises when the body is not a container,
  and the subscript raises when the body is a list or a string that contains \<open>"content"\<close>.
  When no key matches, the last line wraps the response.
\<close>

definition extract_content :: "'f pylib \<Rightarrow> 'f json \<Rightarrow> error + 'f json" where
  "extract_content L response =
     (case response of
        JList xs \<Rightarrow> Inr response
      | JDict kvs \<Rightarrow>
          and_then (case map_of kvs ''body'' of
                      None \<Rightarrow> Inr False
                    | Some body \<Rightarrow> py_contains ''content'' body)
            (\<lambda>nested.
               if nested
               then and_then (py_getitem response ''body'') (\<lambda>body. py_getitem body ''content'')
               else if ''content'' \<in> set (map fst kvs) then py_getitem response ''content''
               else if ''items'' \<in> set (map fst kvs) then py_getitem response ''items''
               else Inr (if truthy L response then JList [response] else JList []))
      | _ \<Rightarrow> Inr (if truthy L response then JList [response] else JList []))"

text \<open>
  \<open>DataProcessor.parse_datetime\<close>: the bare \<open>except\<close> turns every exception into \<open>NaT\<close>.
  The argument is the value of the \<open>date\<close> field, a string in every statement below; for a
  list or a dict the library returns an index or a series, which \<open>timestamp\<close> does not model.
\<close>

definition parse_datetime :: "'f pylib \<Rightarrow> 'f json \<Rightarrow> error + timestamp" where
  "parse_datetime L dt_str =
     try_except
       (and_then (py_contains ''T'' dt_str)
          (\<lambda>has_T. if has_T then to_datetime L dt_str else to_datetime_ymd L dt_str))
       (\<lambda>e. Inr NaT)"

text \<open>The record \<open>process_ptf_data\<close> appends.\<close>

definition ptf_record :: "timestamp \<Rightarrow> 'f \<Rightarrow> int \<Rightarrow> 'f row" where
  "ptf_record dt price hour =
     [(''datetime'', CTime dt), (''price'', CFloat price), (''hour'', CInt hour)]"

text \<open>The body of the loop of \<open>process_ptf_data\<close>: the rows one item appends.\<close>

definition ptf_item :: "'f pylib \<Rightarrow> 'f json \<Rightarrow> error + 'f row list" where
  "ptf_item L item =
     (case item of
        JDict kvs \<Rightarrow>
          and_then (parse_datetime L (dict_get kvs ''date'' (JStr []))) (\<lambda>dt.
          and_then (py_float L (py_or L (dict_get kvs ''price'' (JInt 0))
                                        (dict_get kvs ''value'' (JInt 0)))) (\<lambda>price.
          and_then (py_int L (dict_get kvs ''hour'' (JInt (hour_or_0 dt)))) (\<lambda>hour.
          Inr [ptf_record dt price hour])))
      | _ \<Rightarrow> Inr [])"

text \<open>\<open>DataProcessor.process_ptf_data\<close>\<close>

definition process_ptf_data :: "'f pylib \<Rightarrow> 'f json \<Rightarrow> error + 'f DataFrame" where
  "process_ptf_data L data =
     and_then (extract_content L data) (\<lambda>content.
       if \<not> truthy L content
       then Inr (DataFrame_columns [''datetime'', ''price'', ''hour''])
       else and_then (py_iter content) (\<lambda>items.
            and_then (for_records (ptf_item L) items) (\<lambda>records.
            and_then (sort_values (DataFrame_records records) ''datetime'') (\<lambda>df.
            set_index df ''datetime''))))"

text \<open>The record \<open>process_smf_data\<close> appends.\<close>

definition smf_record :: "timestamp \<Rightarrow> 'f \<Rightarrow> 'f \<Rightarrow> 'f json \<Rightarrow> 'f row" where
  "smf_record dt up down direction =
     [(''datetime'', CTime dt), (''up_price'', CFloat up), (''down_price'', CFloat down),
      (''direction'', CObj direction)]"

text \<open>The body of the loop of \<open>process_smf_data\<close>.\<close>

definition smf_item :: "'f pylib \<Rightarrow> 'f json \<Rightarrow> error + 'f row list" where
  "smf_item L item =
     (case item of
        JDict kvs \<Rightarrow>
          and_then (parse_datetime L (dict_get kvs ''date'' (JStr []))) (\<lambda>dt.
          and_then (py_float L (py_or L (dict_get kvs ''upRegulationPrice'' (JInt 0))
                                        (dict_get kvs ''yalPrice'' (JInt 0)))) (\<lambda>up.
          and_then (py_float L (py_or L (dict_get kvs ''downRegulationPrice'' (JInt 0))
                                        (dict_get kvs ''yatPrice'' (JInt 0)))) (\<lambda>down.
          Inr [smf_record dt up down (dict_get kvs ''systemDirection'' (JStr []))])))
      | _ \<Rightarrow> Inr [])"

text \<open>\<open>DataProcessor.process_smf_data\<close>\<close>

definition process_smf_data :: "'f pylib \<Rightarrow> 'f json \<Rightarrow> error + 'f DataFrame" where
  "process_smf_data L data =
     and_then (extract_content L data) (\<lambda>content.
       if \<not> truthy L content
       then Inr (DataFrame_columns [''datetime'', ''up_price'', ''down_price'', ''direction''])
       else and_then (py_iter content) (\<lambda>items.
            and_then (for_records (smf_item L) items) (\<lambda>records.
            and_then (sort_values (DataFrame_records records) ''datetime'') (\<lambda>df.
            set_index df ''datetime''))))"

text \<open>
  The record \<open>process_generation_data\<close> appends, of a timestamp, a generation type and a
  value, for the item with the entries \<open>kvs\<close>.
\<close>

definition generation_record ::
  "(string \<times> 'f json) list \<Rightarrow> timestamp \<Rightarrow> 'f json \<Rightarrow> 'f \<Rightarrow> 'f row" where
  "generation_record kvs dt ty v =
     [(''datetime'', CTime dt),
      (''power_plant'', CObj (dict_get kvs ''powerPlantName'' (JStr []))),
      (''power_plant_id'', CObj (dict_get kvs ''powerPlantId'' JNull)),
      (''type'', CObj ty),
      (''value'', CFloat v)]"





text \<open>
  The record \<open>process_kgup_data\<close> appends, of a timestamp and a value, for the item with
  the entries \<open>kvs\<close>.
\<close>

definition kgup_record :: "(string \<times> 'f json) list \<Rightarrow> timestamp \<Rightarrow> 'f \<Rightarrow> 'f row" where
  "kgup_record kvs dt v =
     [(''datetime'', CTime dt),
      (''uevcb'', CObj (dict_get kvs ''uevcbName'' (JStr []))),
      (''uevcb_id'', CObj (dict_get kvs ''uevcbId'' JNull)),
      (''planned_generation'', CFloat v)]"




text \<open>\<open>x.items()\<close>: only a dict has the method.\<close>

fun py_items :: "'f json \<Rightarrow> error + (string \<times> 'f json) list" where
  "py_items (JDict kvs) = Inr kvs"
| "py_items _ = Inl AttributeError"

text \<open>The record \<open>process_dashboard_data\<close> appends for an item of \<open>body["data"]\<close>.\<close>

definition dashboard_record :: "(string \<times> 'f json) list \<Rightarrow> timestamp \<Rightarrow> 'f row" where
  "dashboard_record kvs ts =
     [(''metric'', CObj (dict_get kvs ''name'' (JStr []))),
      (''value'', CObj (dict_get kvs ''value'' (JInt 0))),
      (''change'', CObj (dict_get kvs ''change'' (JInt 0))),
      (''timestamp'', CTime ts)]"

text \<open>The body of the loop of \<open>process_dashboard_data\<close> over \<open>body["data"]\<close>.\<close>

definition dashboard_item :: "'f pylib \<Rightarrow> 'f json \<Rightarrow> error + 'f row list" where
  "dashboard_item L item =
     (case item of
        JDict kvs \<Rightarrow>
          and_then (parse_datetime L (dict_get kvs ''date'' (JStr []))) (\<lambda>ts.
          Inr [dashboard_record kvs ts])
      | _ \<Rightarrow> Inr [])"

text \<open>
  \<open>DataProcessor.process_dashboard_data\<close>; \<open>now k\<close> is the value of the \<open>k\<close>-th call of
  \<open>datetime.now()\<close>.
\<close>

definition process_dashboard_data ::
  "'f pylib \<Rightarrow> (nat \<Rightarrow> timestamp) \<Rightarrow> 'f json \<Rightarrow> error + 'f DataFrame" where
  "process_dashboard_data L now data =
     (if \<not> truthy L data then Inr (DataFrame_columns [])
      else
        and_then (py_contains ''body'' data) (\<lambda>has_body.
          if \<not> has_body then Inr (DataFrame_columns [])
          else
            and_then (py_getitem data ''body'') (\<lambda>body.
            and_then (py_contains ''summary'' body) (\<lambda>has_summary.
              if has_summary
              then and_then (py_getitem body ''summary'') (\<lambda>summary.
                   and_then (py_items summary) (\<lambda>kvs.
                   Inr (DataFrame_records
                          (map (\<lambda>(k, metric, v).
                                  [(''metric'', CObj (JStr metric)), (''value'', CObj v),
                                   (''timestamp'', CTime (now k))])
                               (enumerate 0 kvs)))))
              else
                and_then (py_contains ''data'' body) (\<lambda>has_data.
                  if has_data
                  then and_then (py_getitem body ''data'') (\<lambda>d.
                       and_then (py_iter d) (\<lambda>items.
                       and_then (for_records (dashboard_item L) items) (\<lambda>records.
                       Inr (DataFrame_records records))))
                  else Inr (DataFrame_records []))))))"

section \<open>src/data/models.py\<close>

text \<open>\<open>PageConfig\<close>, with its defaults.\<close>

record PageConfig =
  page_number :: nat
  page_size :: nat
  page_total :: "nat option"

definition PageConfig_default :: PageConfig where
  "PageConfig_default = \<lparr>page_number = 1, page_size = 100, page_total = None\<rparr>"

text \<open>
  \<open>MarketDataRequest\<close> (a \<open>DateRangeRequest\<close>).  A \<open>date\<close> is a day number; a \<open>datetime\<close> is a
  number of microseconds, \<open>datetime.combine(d, t)\<close> adding the time of day to the day.
\<close>

record MarketDataRequest =
  page :: "PageConfig option"
  startDate :: int
  endDate :: int
  period :: "string option"

definition DAY_US :: int where
  "DAY_US = 86400000000"

definition combine_min_time :: "int \<Rightarrow> int" where
  "combine_min_time d = d * DAY_US"

definition combine_max_time :: "int \<Rightarrow> int" where
  "combine_max_time d = d * DAY_US + (DAY_US - 1)"

text \<open>The constructor runs the validator \<open>validate_date_range\<close> of \<open>DateRangeRequest\<close>.\<close>

definition MarketDataRequest_init :: "int \<Rightarrow> int \<Rightarrow> error + MarketDataRequest" where
  "MarketDataRequest_init sd ed =
     (if ed < sd then Inl (ValueError ''endDate must be after startDate'')
      else Inr \<lparr>page = None, startDate = sd, endDate = ed, period = None\<rparr>)"

section \<open>src/data/fetchers.py\<close>

definition DAM_MCP :: string where
  "DAM_MCP = ''/markets/dam/data/mcp''"

text \<open>
  \<open>DataFetcher.fetch_ptf_data\<close>, with the method \<open>get_paginated\<close> of its client as a
  parameter.  The request is built before the \<open>try\<close>; the handler logs and re-raises.
\<close>

definition fetch_ptf_data ::
  "'f pylib \<Rightarrow> (string \<Rightarrow> MarketDataRequest \<Rightarrow> error + 'f json) \<Rightarrow> int \<Rightarrow> int \<Rightarrow>
     error + 'f DataFrame" where
  "fetch_ptf_data L client_get_paginated start_date end_date =
     and_then (MarketDataRequest_init (combine_min_time start_date) (combine_max_time end_date))
       (\<lambda>request.
          and_then (client_get_paginated DAM_MCP request) (\<lambda>data. process_ptf_data L data))"

text \<open>The names and endpoints of \<open>fetch_dashboard_data\<close>.\<close>

definition dashboard_endpoints :: "(string \<times> string) list" where
  "dashboard_endpoints =
     [(''bpm'', ''/dashboard/balancing-power-market''),
      (''dam'', ''/dashboard/day-ahead-market''),
      (''idm'', ''/dashboard/intra-day-market''),
      (''consumption'', ''/dashboard/realtime-consumption''),
      (''generation'', ''/dashboard/realtime-generation''),
      (''weighted_price'', ''/dashboard/weighted-average-price'')]"

text \<open>
  The loop of \<open>fetch_dashboard_data\<close> over the names zipped with the results of
  \<open>asyncio.gather(*tasks, return_exceptions=True)\<close>: a result that is an exception gives an
  empty table; any other result is normalized, and an exception of the normalizer leaves
  the loop (the handler around it logs and re-raises).
\<close>

fun dashboard_loop ::
  "'f pylib \<Rightarrow> (string \<Rightarrow> nat \<Rightarrow> timestamp) \<Rightarrow> (string \<times> (error + 'f json)) list \<Rightarrow>
     error + (string \<times> 'f DataFrame) list" where
  "dashboard_loop L now [] = Inr []"
| "dashboard_loop L now ((name, result) # rest) =
     and_then (case result of
                 Inl e \<Rightarrow> Inr (DataFrame_columns [])
               | Inr r \<Rightarrow> process_dashboard_data L (now name) r)
       (\<lambda>df. and_then (dashboard_loop L now rest) (\<lambda>d. Inr ((name, df) # d)))"

text \<open>
  \<open>DataFetcher.fetch_dashboard_data\<close>; \<open>client_get endpoint\<close> is the outcome of the task
  \<open>self.client.get(endpoint)\<close>.  The result is the dict, as the list of its items.
\<close>

definition fetch_dashboard_data ::
  "'f pylib \<Rightarrow> (string \<Rightarrow> nat \<Rightarrow> timestamp) \<Rightarrow> (string \<Rightarrow> error + 'f json) \<Rightarrow>
     error + (string \<times> 'f DataFrame) list" where
  "fetch_dashboard_data L now client_get =
     dashboard_loop L now (map (\<lambda>(name, endpoint). (name, client_get endpoint)) dashboard_endpoints)"

text \<open>
  What the dict of \<open>fetch_dashboard_data\<close> holds for a task, given the outcome of the
  task: the empty table when the task raised, the normalized payload otherwise.
\<close>

definition dashboard_entry ::
  "'f pylib \<Rightarrow> (string \<Rightarrow> nat \<Rightarrow> timestamp) \<Rightarrow> (string \<times> 'f DataFrame) list \<Rightarrow>
     string \<Rightarrow> error + 'f json \<Rightarrow> bool" where
  "dashboard_entry L now d name res =
     (case res of
        Inl e \<Rightarrow> map_of d name = Some (DataFrame_columns [])
      | Inr r \<Rightarrow>
          (case map_of d name of
             None \<Rightarrow> False
           | Some df \<Rightarrow> process_dashboard_data L (now name) r = Inr df))"

text \<open>
  A value of the dict of \<open>fetch_organization_overview\<close>: a table, or the list of \<open>UEVCB\<close>
  objects (of type \<open>'u\<close>) of the entry \<open>uevcb_list\<close>.
\<close>

datatype ('f, 'u) overview_value = Frame "'f DataFrame" | Listing "'u list"

definition overview_tasks :: "string list" where
  "overview_tasks = [''uevcb_list'', ''generation'', ''kgup'', ''ptf'', ''smf'']"

text \<open>
  The loop of \<open>fetch_organization_overview\<close>; \<open>await name\<close> is the outcome of awaiting the
  task of that name.
\<close>

fun overview_loop ::
  "(string \<Rightarrow> error + ('f, 'u) overview_value) \<Rightarrow> string list \<Rightarrow>
     error + (string \<times> ('f, 'u) overview_value) list" where
  "overview_loop await [] = Inr []"
| "overview_loop await (name # rest) =
     and_then (try_except (await name)
                 (\<lambda>e. Inr (if name \<noteq> ''uevcb_list'' then Frame (DataFrame_columns [])
                           else Listing [])))
       (\<lambda>v. and_then (overview_loop await rest) (\<lambda>d. Inr ((name, v) # d)))"

text \<open>\<open>DataFetcher.fetch_organization_overview\<close>\<close>

definition fetch_organization_overview ::
  "(string \<Rightarrow> error + ('f, 'u) overview_value) \<Rightarrow> error + (string \<times> ('f, 'u) overview_value) list" where
  "fetch_organization_overview await = overview_loop await overview_tasks"

section \<open>The pagination driver\<close>

text \<open>\<open>config/settings.py\<close>\<close>

definition DEFAULT_PAGE_SIZE :: nat where
  "DEFAULT_PAGE_SIZE = 100"

definition MAX_PAGE_SIZE :: nat where
  "MAX_PAGE_SIZE = 1000"

text \<open>
  Modelled from the spec: the Raw Page of section 3, as the driver reads it: the content
  list of the page and, when the envelope has page metadata, the current page number and
  the total number of pages.
\<close>

record 'r raw_page =
  content :: "'r list"
  page_info :: "(nat \<times> nat) option"

text \<open>
  Modelled from the spec: the loop of the Pagination Driver over the pages after the
  first (section 4.3), which is not in the sources: page \<open>number\<close> and its successors, at
  most \<open>left\<close> of them, appended to the content gathered so far; an empty page ends the
  fetch; a failure propagates and no partial content is returned.
\<close>

fun remaining_pages ::
  "(nat \<Rightarrow> error + 'r raw_page) \<Rightarrow> nat \<Rightarrow> nat \<Rightarrow> 'r list \<Rightarrow> error + 'r list" where
  "remaining_pages fetch number 0 acc = Inr acc"
| "remaining_pages fetch number (Suc left) acc =
     (case fetch number of
        Inl e \<Rightarrow> Inl e
      | Inr p \<Rightarrow>
          if content p = [] then Inr acc
          else remaining_pages fetch (Suc number) left (acc @ content p))"

text \<open>
  Modelled from the spec: the Pagination Driver, the method \<open>get_paginated\<close> of the client
  class that \<open>fetchers.py\<close> imports; the class and the method are not in the sources.
  Section 4.3 of the specification: it issues the first page, reads the total-page
  metadata from the envelope, and issues the subsequent pages in order until the last page
  is retrieved or the server reports no further content; a page without metadata ends the
  fetch after one call; the page size is bounded by the configured maximum; a failure on
  any page propagates without partial pages.  \<open>server endpoint request number sz\<close> is the
  outcome of requesting one page.
\<close>

definition get_paginated ::
  "nat \<Rightarrow> (string \<Rightarrow> 'q \<Rightarrow> nat \<Rightarrow> nat \<Rightarrow> error + 'r raw_page) \<Rightarrow> string \<Rightarrow> 'q \<Rightarrow>
     error + 'r list" where
  "get_paginated size_wanted server endpoint request =
     (let sz = min size_wanted MAX_PAGE_SIZE
      in case server endpoint request 1 sz of
           Inl e \<Rightarrow> Inl e
         | Inr first \<Rightarrow>
             (case page_info first of
                None \<Rightarrow> Inr (content first)
              | Some (number, total_pages) \<Rightarrow>
                  remaining_pages (\<lambda>k. server endpoint request k sz) 2 (total_pages - 1)
                    (content first)))"

text \<open>
  Modelled from the spec: the mock server of section 8, which holds the records of the
  requested range and serves them in pages of the requested size, each with the page
  number and the total number of pages; a page of unbounded size is the whole list.
\<close>

definition mock_server :: "'r list \<Rightarrow> string \<Rightarrow> 'q \<Rightarrow> nat \<Rightarrow> nat \<Rightarrow> error + 'r raw_page" where
  "mock_server ds endpoint request number sz =
     Inr \<lparr>content = take sz (drop ((number - 1) * sz) ds),
          page_info = Some (number, (length ds + sz - 1) div sz)\<rparr>"

text \<open>
  Modelled from the spec: the single fetch with an unbounded page size of section 8, one
  request for a page as long as the whole list.
\<close>

definition unbounded_fetch :: "'r list \<Rightarrow> string \<Rightarrow> 'q \<Rightarrow> error + 'r list" where
  "unbounded_fetch ds endpoint request =
     (case mock_server ds endpoint request 1 (length ds) of
        Inl e \<Rightarrow> Inl e
      | Inr p \<Rightarrow> Inr (content p))"

section \<open>Example inputs\<close>

text \<open>
  An authentication server that always issues the ticket \<open>TGT-1\<close> (with white space around
  it in the body), a clock that advances by one second at each reading from 1000, and a
  data server that answers 401 to the first request and 200 afterwards.
\<close>

definition ok_auth_reply :: "unit response" where
  "ok_auth_reply = \<lparr>status_code = 200, body_text = '' TGT-1'' @ [CHR 0x0A],
                    json_body = Inl JSONDecodeError\<rparr>"

definition env_expired_once :: "(unit, nat) env" where
  "env_expired_once =
     \<lparr>time_time = (\<lambda>k. 1000 + real k),
      auth_post = (\<lambda>k form. Inr \<lparr>status_code = 200, body_text = '' TGT-1'' @ [CHR 0x0A],
                                 json_body = Inl JSONDecodeError\<rparr>),
      session_request = (\<lambda>k r. if k = 0
                                then Inr \<lparr>status_code = 401, body_text = [], json_body = Inl JSONDecodeError\<rparr>
                                else Inr \<lparr>status_code = 200, body_text = ''7'', json_body = Inr 7\<rparr>)\<rparr>"

text \<open>
  The same, but the authentication server answers 500 from its second request on, and the
  data server always answers 401.
\<close>

definition env_auth_down :: "(unit, nat) env" where
  "env_auth_down =
     \<lparr>time_time = (\<lambda>k. 1000 + real k),
      auth_post = (\<lambda>k form. if k = 0
                          then Inr \<lparr>status_code = 200, body_text = ''TGT-1'', json_body = Inl JSONDecodeError\<rparr>
                          else Inr \<lparr>status_code = 500, body_text = [], json_body = Inl JSONDecodeError\<rparr>),
      session_request = (\<lambda>k r. Inr \<lparr>status_code = 401, body_text = [], json_body = Inl JSONDecodeError\<rparr>)\<rparr>"

text \<open>
  An authentication server that answers 200 with a login page to its first request and
  304 with a ticket to the others.
\<close>

definition env_odd_auth :: "(unit, nat) env" where
  "env_odd_auth =
     \<lparr>time_time = (\<lambda>k. 1000 + real k),
      auth_post = (\<lambda>k form. if k = 0
                          then Inr \<lparr>status_code = 200, body_text = ''<html>login</html>'',
                                    json_body = Inl JSONDecodeError\<rparr>
                          else Inr \<lparr>status_code = 304, body_text = ''TGT-1'', json_body = Inl JSONDecodeError\<rparr>),
      session_request = (\<lambda>k r. Inl ConnectionError)\<rparr>"

definition mgr_cached :: TGTManager where
  "mgr_cached = \<lparr>username = ''u'', password = ''p'', token = Some ''TGT-0'', expires_at = 5000\<rparr>"

text \<open>
  An interpreter and a parser for the examples: floats are rational numbers, no string
  converts to a number, and the parser knows the first day of 2024 (as a date, and at
  five o'clock as a date-time) and the empty string, which pandas reads as \<open>NaT\<close>.
\<close>

definition example_lib :: "rat pylib" where
  "example_lib =
     \<lparr>float_of_int = (\<lambda>n. Inr (of_int n)),
      float_of_str = (\<lambda>s. Inl (ValueError ''could not convert string to float'')),
      int_of_float = (\<lambda>x. Inr (if x < 0 then \<lceil>x\<rceil> else \<lfloor>x\<rfloor>)),
      int_of_str = (\<lambda>s. Inl (ValueError ''invalid literal for int()'')),
      float_nonzero = (\<lambda>x. x \<noteq> 0),
      to_datetime = (\<lambda>x. if x = JStr ''2024-01-01T05:00:00''
                           then Inr (Timestamp (473357 * HOUR_NS) None)
                           else Inl (ValueError ''Unknown datetime string format'')),
      to_datetime_ymd = (\<lambda>x. if x = JStr ''2024-01-01'' then Inr (Timestamp (473352 * HOUR_NS) None)
                               else if x = JStr [] then Inr NaT
                               else Inl (ValueError ''time data does not match format''))\<rparr>"

text \<open>A price response of two records, the first with a date that does not parse.\<close>

definition ptf_example :: "rat json" where
  "ptf_example =
     JList [JDict [(''date'', JStr ''n/a''), (''price'', JInt 5)],
            JDict [(''date'', JStr ''2024-01-01''), (''price'', JFloat (201 / 2)), (''hour'', JInt 3)]]"






text \<open>
  Dashboard tasks: the first raises, and the others return a payload with one metric; in
  the second example the task of the day-ahead market returns a payload whose body is
  \<open>null\<close>.  The clock of \<open>datetime.now()\<close> stands still.
\<close>

definition metric_payload :: "rat json" where
  "metric_payload =
     JDict [(''body'', JDict [(''data'', JList [JDict [(''name'', JStr ''load''), (''value'', JInt 3)]])])]"

definition metric_table :: "rat DataFrame" where
  "metric_table =
     DataFrame_records [dashboard_record [(''name'', JStr ''load''), (''value'', JInt 3)] NaT]"

definition dashboard_one_down :: "string \<Rightarrow> error + rat json" where
  "dashboard_one_down endpoint =
     (if endpoint = ''/dashboard/balancing-power-market'' then Inl ConnectionError
      else Inr metric_payload)"

definition dashboard_null_body :: "string \<Rightarrow> error + rat json" where
  "dashboard_null_body endpoint =
     (if endpoint = ''/dashboard/balancing-power-market'' then Inl ConnectionError
      else if endpoint = ''/dashboard/day-ahead-market'' then Inr (JDict [(''body'', JNull)])
      else Inr metric_payload)"

definition still_clock :: "string \<Rightarrow> nat \<Rightarrow> timestamp" where
  "still_clock name k = Timestamp 0 None"

text \<open>
  Overview tasks: the list of units and the generation table fail, the others return a
  table.
\<close>

definition overview_two_down :: "string \<Rightarrow> error + (rat, nat) overview_value" where
  "overview_two_down name =
     (if name = ''uevcb_list'' then Inl ConnectionError
      else if name = ''generation'' then Inl (HTTPError 500)
      else Inr (Frame (DataFrame_columns [name])))"

section \<open>The ticket manager\<close>

lemma request_new_token_io:
  "snd (request_new_token E mgr io) =
     io\<lparr>auth_posts := auth_posts io @ [''username='' @ username mgr @ ''&password='' @ password mgr]\<rparr>"
  by (auto simp: request_new_token_def Let_def split: sum.splits)

lemma current_cases:
  assumes "current E f (mgr, io) = (r, mgr', io')"
  shows "(\<exists>e. r = Inl e \<and> mgr' = mgr)
       \<or> (\<exists>tok. r = Inr (Some tok) \<and> token mgr' = Some tok
              \<and> length (auth_posts io') = Suc (length (auth_posts io))
              \<and> expires_at mgr' = time_time E (time_reads io' - 1) + TTL_SECONDS - 60)
       \<or> (r = Inr (token mgr) \<and> mgr' = mgr \<and> auth_posts io' = auth_posts io
              \<and> time_reads io' = Suc (time_reads io)
              \<and> time_time E (time_reads io) < expires_at mgr)"
proof -
  let ?io1 = "if f then io else io\<lparr>time_reads := Suc (time_reads io)\<rparr>"
  obtain q io2 where q: "request_new_token E mgr ?io1 = (q, io2)"
    by (cases "request_new_token E mgr ?io1")
  have "io2 = ?io1\<lparr>auth_posts := auth_posts ?io1 @ [''username='' @ username mgr @ ''&password='' @ password mgr]\<rparr>"
    using request_new_token_io[of E mgr ?io1] q by simp
  then have len: "length (auth_posts io2) = Suc (length (auth_posts io))"
    by (auto split: if_splits)
  show ?thesis
    using assms q len
    by (cases q) (auto simp: current_def Let_def split: if_splits)
qed

lemma current_forced_io:
  assumes "current E True (mgr, io) = (r, mgr', io')"
  shows "auth_posts io' = auth_posts io @ [''username='' @ username mgr @ ''&password='' @ password mgr]
         \<and> sent io' = sent io"
proof -
  obtain q io2 where q: "request_new_token E mgr io = (q, io2)"
    by (cases "request_new_token E mgr io")
  have "io2 = io\<lparr>auth_posts := auth_posts io @ [''username='' @ username mgr @ ''&password='' @ password mgr]\<rparr>"
    using request_new_token_io[of E mgr io] q by simp
  then show ?thesis using assms q by (cases q) (auto simp: current_def Let_def)
qed

text \<open>
  C6, as amended.  Requesting a new ticket fails whenever the authentication endpoint
  answers with an error status (400 to 599) or the body, stripped of surrounding white
  space, does not begin with \<open>TGT-\<close>: the exception is the \<open>HTTPError\<close> of the HTTP library
  with the status in the first case and \<open>ValueError\<close> in the second.
\<close>

theorem request_new_token_fails:
  assumes "auth_post E (length (auth_posts io))
             (''username='' @ username mgr @ ''&password='' @ password mgr) = Inr resp"
    and "(400 \<le> status_code resp \<and> status_code resp < 600)
           \<or> \<not> startswith (strip (body_text resp)) ''TGT-''"
  shows "fst (request_new_token E mgr io) =
           Inl (if 400 \<le> status_code resp \<and> status_code resp < 600
                then HTTPError (status_code resp)
                else ValueError ''Unexpected token format returned by CAS'')"
  using assms by (auto simp: request_new_token_def raise_for_status_def Let_def)

text \<open>The amended C6 where the authentication server answers 500.\<close>

theorem request_new_token_fails_witness:
  "fst (request_new_token env_auth_down (TGTManager_init ''u'' ''p'') (io0\<lparr>auth_posts := [''first'']\<rparr>))
     = Inl (HTTPError 500)"
proof -
  have "auth_post env_auth_down (length (auth_posts (io0\<lparr>auth_posts := [''first'']\<rparr> :: unit io)))
          (''username='' @ username (TGTManager_init ''u'' ''p'') @ ''&password=''
             @ password (TGTManager_init ''u'' ''p''))
        = Inr \<lparr>status_code = 500, body_text = [], json_body = Inl JSONDecodeError\<rparr>"
    by (simp add: env_auth_down_def)
  from request_new_token_fails[OF this] show ?thesis by simp
qed

text \<open>
  C6 as stated fails.  A 200 answer whose body is a login page raises \<open>ValueError\<close>, which
  is not an \<open>AuthenticationError\<close>; and a 304 answer, which is not a success status, with a
  ticket in its body returns the ticket.
\<close>

theorem request_new_token_not_authentication_error:
  "fst (request_new_token env_odd_auth (TGTManager_init ''u'' ''p'') io0)
     = Inl (ValueError ''Unexpected token format returned by CAS'')
   \<and> \<not> isinstance_exc (ValueError ''Unexpected token format returned by CAS'') ''AuthenticationError''
   \<and> auth_post env_odd_auth 1 ''username=u&password=p''
     = Inr \<lparr>status_code = 304, body_text = ''TGT-1'', json_body = Inl JSONDecodeError\<rparr>
   \<and> fst (request_new_token env_odd_auth (TGTManager_init ''u'' ''p'') (io0\<lparr>auth_posts := [''first'']\<rparr>))
     = Inr ''TGT-1''"
  by (simp add: request_new_token_def raise_for_status_def env_odd_auth_def TGTManager_init_def
        io0_def Let_def strip_def isspace_def startswith_def isinstance_exc_def)

text \<open>
  C7.  From a state that holds a cached ticket, two successive calls of \<open>current()\<close> without
  \<open>force_refresh\<close>, both reading the clock before the cached expiry, return the same
  ticket; neither posts to the authentication endpoint nor sends a request, and the
  manager (ticket and expiry) is unchanged.
\<close>

theorem current_idempotent_while_unexpired:
  assumes "token mgr = Some t"
    and "time_time E (time_reads io) < expires_at mgr"
    and "time_time E (Suc (time_reads io)) < expires_at mgr"
  shows "(case current E False (mgr, io) of
            (r1, mgr1, io1) \<Rightarrow>
              (case current E False (mgr1, io1) of
                 (r2, mgr2, io2) \<Rightarrow>
                   r1 = Inr (Some t) \<and> r2 = r1 \<and> mgr1 = mgr \<and> mgr2 = mgr
                   \<and> auth_posts io1 = auth_posts io \<and> auth_posts io2 = auth_posts io
                   \<and> sent io1 = sent io \<and> sent io2 = sent io))"
  using assms by (simp add: current_def Let_def)

text \<open>C7 at a manager whose ticket expires at 5000, with the clock at 1000 and 1001.\<close>

theorem current_idempotent_witness:
  "fst (current env_expired_once False (mgr_cached, io0)) = Inr (Some ''TGT-0'')
   \<and> fst (current env_expired_once False (snd (current env_expired_once False (mgr_cached, io0))))
       = Inr (Some ''TGT-0'')
   \<and> auth_posts (snd (snd (current env_expired_once False
                              (snd (current env_expired_once False (mgr_cached, io0)))))) = []"
proof -
  have "token mgr_cached = Some ''TGT-0''"
    and "time_time env_expired_once (time_reads (io0 :: unit io)) < expires_at mgr_cached"
    and "time_time env_expired_once (Suc (time_reads (io0 :: unit io))) < expires_at mgr_cached"
    by (simp_all add: mgr_cached_def env_expired_once_def io0_def)
  from current_idempotent_while_unexpired[OF this]
  show ?thesis by (auto simp: io0_def split: prod.splits)
qed

lemma run_current_inv:
  "ticket_inv (fst s) acq \<Longrightarrow> (tok, now, a, ex) \<in> set (run_current E s acq fs) \<Longrightarrow> tok \<noteq> None
    \<Longrightarrow> ex = a + TTL_SECONDS - 60 \<and> now < ex"
proof (induction fs arbitrary: s acq)
  case Nil
  then show ?case by simp
next
  case (Cons f fs)
  obtain mgr io where s: "s = (mgr, io)" by (cases s)
  obtain r mgr' io' where c: "current E f (mgr, io) = (r, mgr', io')"
    by (cases "current E f (mgr, io)")
  from current_cases[OF c]
  consider (err) e where "r = Inl e" "mgr' = mgr"
    | (fresh) t where "r = Inr (Some t)" "token mgr' = Some t"
        "length (auth_posts io') = Suc (length (auth_posts io))"
        "expires_at mgr' = time_time E (time_reads io' - 1) + TTL_SECONDS - 60"
    | (cached) "r = Inr (token mgr)" "mgr' = mgr" "auth_posts io' = auth_posts io"
        "time_reads io' = Suc (time_reads io)" "time_time E (time_reads io) < expires_at mgr"
    by blast
  then show ?case
  proof cases
    case err
    with Cons.prems s c have "(tok, now, a, ex) \<in> set (run_current E (mgr', io') acq fs)"
      by simp
    moreover have "ticket_inv (fst (mgr', io')) acq" using Cons.prems(1) s err by simp
    ultimately show ?thesis using Cons.IH Cons.prems(3) by blast
  next
    case fresh
    let ?now = "time_time E (time_reads io' - 1)"
    have inv': "ticket_inv (fst (mgr', io')) ?now"
      using fresh by (simp add: ticket_inv_def)
    from Cons.prems(2) s c fresh
    have "(tok, now, a, ex) = (Some t, ?now, ?now, expires_at mgr')
          \<or> (tok, now, a, ex) \<in> set (run_current E (mgr', io') ?now fs)"
      by (simp add: Let_def)
    then show ?thesis
    proof
      assume "(tok, now, a, ex) = (Some t, ?now, ?now, expires_at mgr')"
      then show ?thesis using fresh by (simp add: TTL_SECONDS_def)
    next
      assume "(tok, now, a, ex) \<in> set (run_current E (mgr', io') ?now fs)"
      then show ?thesis using Cons.IH[OF inv'] Cons.prems(3) by blast
    qed
  next
    case cached
    have inv': "ticket_inv (fst (mgr', io')) acq" using Cons.prems(1) s cached by simp
    from Cons.prems(2) s c cached
    have "(tok, now, a, ex) = (token mgr, time_time E (time_reads io), acq, expires_at mgr)
          \<or> (tok, now, a, ex) \<in> set (run_current E (mgr', io') acq fs)"
      by (simp add: Let_def)
    then show ?thesis
    proof
      assume "(tok, now, a, ex) = (token mgr, time_time E (time_reads io), acq, expires_at mgr)"
      then show ?thesis using cached Cons.prems(1,3) s by (auto simp: ticket_inv_def)
    next
      assume "(tok, now, a, ex) \<in> set (run_current E (mgr', io') acq fs)"
      then show ?thesis using Cons.IH[OF inv'] Cons.prems(3) by blast
    qed
  qed
qed

text \<open>
  C8.  In every run of \<open>current()\<close> calls from a new manager, whatever the flags, the clock
  and the answers of the authentication endpoint, every ticket returned comes with a
  cached expiry equal to its acquisition time plus the validity window minus 60 seconds,
  is returned before that expiry, and so is more than 60 seconds from its real expiry
  (acquisition time plus the validity window).  The acquisition time is the clock reading
  the refresh takes when the token request has returned.
\<close>

theorem ticket_never_within_margin:
  "\<forall>(tok, now, acq, ex) \<in> set (run_current E (TGTManager_init u p, io) a0 fs).
     tok \<noteq> None \<longrightarrow> ex = acq + TTL_SECONDS - 60 \<and> now < ex \<and> 60 < acq + TTL_SECONDS - now"
proof -
  have "ticket_inv (fst (TGTManager_init u p, io)) a0"
    by (simp add: ticket_inv_def TGTManager_init_def)
  from run_current_inv[OF this] show ?thesis by fastforce
qed

text \<open>
  C8 on a run of three calls, the last one forced: the second call returns the ticket
  acquired at 1001 when the clock reads 1002.
\<close>

theorem ticket_never_within_margin_witness:
  "(Some ''TGT-1'', 1002, 1001, 8141)
     \<in> set (run_current env_expired_once (TGTManager_init ''u'' ''p'', io0) 0 [False, False, True])
   \<and> (8141 :: real) = 1001 + TTL_SECONDS - 60 \<and> (1002 :: real) < 8141
   \<and> (60 :: real) < 1001 + TTL_SECONDS - 1002"
proof -
  have m: "(Some ''TGT-1'', 1002, 1001, 8141)
     \<in> set (run_current env_expired_once (TGTManager_init ''u'' ''p'', io0 :: unit io) 0 [False, False, True])"
    by (simp add: current_def request_new_token_def raise_for_status_def env_expired_once_def
          TGTManager_init_def io0_def Let_def strip_def isspace_def startswith_def TTL_SECONDS_def)
  from ticket_never_within_margin[of env_expired_once "''u''" "''p''" io0 0 "[False, False, True]"] m
  show ?thesis by fastforce
qed

section \<open>The HTTP client\<close>

text \<open>
  C1, as amended.  When the first response has status 401 or 406, the client makes
  exactly one forced ticket refresh (one POST to the authentication endpoint).  If the
  refresh raises, its exception is raised and there is no retry.  If it returns a ticket,
  the client sends the same request once more with the new ticket, two attempts in all,
  and the outcome is that of the second response: the \<open>HTTPError\<close> of the HTTP library
  with the status when it is 400 to 599 (a second 401 or 406 included), else the parsed
  body; a transport failure of the retry is raised as it is.
\<close>

theorem request_retries_once_after_auth_failure:
  assumes first: "current E False s = (Inr tok, mgr1, io1)"
    and req: "req = \<lparr>http_method = m, url = BASE @ path, tgt_header = tok, payload = kw\<rparr>"
    and resp: "session_request E (length (sent io1)) req = Inr resp"
    and st: "status_code resp = 401 \<or> status_code resp = 406"
    and forced: "current E True (mgr1, io1\<lparr>sent := sent io1 @ [req]\<rparr>) = (refreshed, mgr2, io3)"
  shows "auth_posts io3 = auth_posts io1 @ [''username='' @ username mgr1 @ ''&password='' @ password mgr1]
       \<and> auth_posts (snd (snd (EpiasClient_request E m path kw s))) = auth_posts io3
       \<and> (case refreshed of
            Inl e \<Rightarrow>
              EpiasClient_request E m path kw s = (Inl e, mgr2, io3) \<and> sent io3 = sent io1 @ [req]
          | Inr tok2 \<Rightarrow>
              sent (snd (snd (EpiasClient_request E m path kw s)))
                = sent io1 @ [req, req\<lparr>tgt_header := tok2\<rparr>]
              \<and> fst (EpiasClient_request E m path kw s)
                = (case session_request E (Suc (length (sent io1))) (req\<lparr>tgt_header := tok2\<rparr>) of
                     Inl e \<Rightarrow> Inl e
                   | Inr resp2 \<Rightarrow>
                       if 400 \<le> status_code resp2 \<and> status_code resp2 < 600
                       then Inl (HTTPError (status_code resp2))
                       else json_body resp2))"
proof -
  from current_forced_io[OF forced]
  have io3: "auth_posts io3 = auth_posts io1 @ [''username='' @ username mgr1 @ ''&password='' @ password mgr1]"
    "sent io3 = sent io1 @ [req]" by simp_all
  show ?thesis
    using first req resp st forced io3
    by (cases refreshed)
       (auto simp: EpiasClient_request_def Let_def and_then_def raise_for_status_def
             split: sum.splits)
qed

text \<open>
  The amended C1 where the cached ticket is rejected once: one refresh, two attempts, and
  the parsed body of the second response.
\<close>

theorem request_retries_once_witness:
  "fst (EpiasClient_request env_expired_once ''GET'' ''/x'' () (mgr_cached, io0)) = Inr 7
   \<and> length (sent (snd (snd (EpiasClient_request env_expired_once ''GET'' ''/x'' () (mgr_cached, io0))))) = 2
   \<and> length (auth_posts (snd (snd (EpiasClient_request env_expired_once ''GET'' ''/x'' () (mgr_cached, io0))))) = 1"
proof -
  let ?req = "\<lparr>http_method = ''GET'', url = BASE @ ''/x'', tgt_header = Some ''TGT-0'', payload = ()\<rparr>"
  let ?io1 = "io0\<lparr>time_reads := Suc 0\<rparr> :: unit io"
  have first: "current env_expired_once False (mgr_cached, io0)
                 = (Inr (Some ''TGT-0''), mgr_cached, ?io1)"
    by (simp add: current_def env_expired_once_def mgr_cached_def io0_def Let_def)
  have resp: "session_request env_expired_once (length (sent ?io1)) ?req
                = Inr \<lparr>status_code = 401, body_text = [], json_body = Inl JSONDecodeError\<rparr>"
    by (simp add: env_expired_once_def io0_def)
  have forced: "current env_expired_once True (mgr_cached, ?io1\<lparr>sent := sent ?io1 @ [?req]\<rparr>)
       = (Inr (Some ''TGT-1''),
          mgr_cached\<lparr>token := Some ''TGT-1'', expires_at := 1001 + TTL_SECONDS - 60\<rparr>,
          \<lparr>time_reads = 2, auth_posts = [''username=u&password=p''], sent = [?req]\<rparr>)"
    by (simp add: current_def request_new_token_def raise_for_status_def env_expired_once_def
          mgr_cached_def io0_def Let_def strip_def isspace_def startswith_def)
  from request_retries_once_after_auth_failure[OF first refl resp _ forced]
  show ?thesis by (simp add: env_expired_once_def io0_def)
qed

text \<open>
  C1 as stated fails.  The first response is 401 and the forced refresh is answered 500:
  the client raises the \<open>HTTPError\<close> of the refresh, which is not an \<open>APIError\<close>, after one
  attempt, without a retry.
\<close>

theorem request_no_retry_when_refresh_fails:
  "session_request env_auth_down 0
       \<lparr>http_method = ''GET'', url = BASE @ ''/x'', tgt_header = Some ''TGT-1'', payload = ()\<rparr>
     = Inr \<lparr>status_code = 401, body_text = [], json_body = Inl JSONDecodeError\<rparr>
   \<and> fst (EpiasClient_request env_auth_down ''GET'' ''/x'' () (TGTManager_init ''u'' ''p'', io0))
       = Inl (HTTPError 500)
   \<and> sent (snd (snd (EpiasClient_request env_auth_down ''GET'' ''/x'' () (TGTManager_init ''u'' ''p'', io0))))
       = [\<lparr>http_method = ''GET'', url = BASE @ ''/x'', tgt_header = Some ''TGT-1'', payload = ()\<rparr>]
   \<and> \<not> isinstance_exc (HTTPError 500) ''APIError''"
  by (simp add: EpiasClient_request_def current_def request_new_token_def raise_for_status_def
        env_auth_down_def TGTManager_init_def io0_def Let_def strip_def isspace_def startswith_def
        isinstance_exc_def)

section \<open>The response normalizers\<close>

lemma and_then_Inl [simp]: "and_then (Inl e) f = Inl e"
  by (simp add: and_then_def)

lemma and_then_Inr [simp]: "and_then (Inr v) f = f v"
  by (simp add: and_then_def)

lemma and_then_eq_Inr: "and_then m f = Inr y \<longleftrightarrow> (\<exists>v. m = Inr v \<and> f v = Inr y)"
  by (cases m) simp_all





lemma for_records_no_dict:
  "\<forall>x \<in> set xs. \<not> is_dict x \<Longrightarrow> (\<And>x. \<not> is_dict x \<Longrightarrow> f x = Inr []) \<Longrightarrow> for_records f xs = Inr []"
  by (induction xs) simp_all

lemma ptf_item_no_dict: "\<not> is_dict x \<Longrightarrow> ptf_item L x = Inr []"
  by (cases x) (simp_all add: ptf_item_def)

lemma smf_item_no_dict: "\<not> is_dict x \<Longrightarrow> smf_item L x = Inr []"
  by (cases x) (simp_all add: smf_item_def)

lemma set_index_Inr: "set_index df col = Inr df' \<Longrightarrow> index_name df' = Some col \<and> rows df' = rows df"
  by (auto simp: set_index_def split: if_splits)

lemma process_ptf_data_list:
  "extract_content L data = Inr (JList xs) \<Longrightarrow> xs \<noteq> [] \<Longrightarrow>
   process_ptf_data L data =
     and_then (for_records (ptf_item L) xs) (\<lambda>records.
     and_then (sort_values (DataFrame_records records) ''datetime'') (\<lambda>df.
     set_index df ''datetime''))"
  by (simp add: process_ptf_data_def)

lemma process_smf_data_list:
  "extract_content L data = Inr (JList xs) \<Longrightarrow> xs \<noteq> [] \<Longrightarrow>
   process_smf_data L data =
     and_then (for_records (smf_item L) xs) (\<lambda>records.
     and_then (sort_values (DataFrame_records records) ''datetime'') (\<lambda>df.
     set_index df ''datetime''))"
  by (simp add: process_smf_data_def)

text \<open>
  C10.  When the extracted content is a list that is not empty and holds no dict,
  \<open>process_ptf_data\<close> and \<open>process_smf_data\<close> raise \<open>KeyError('datetime')\<close>; and when the
  extracted content is a list, each returns its empty table with the documented columns
  exactly when that list is empty.
\<close>

theorem price_tables_key_error_without_records:
  assumes "extract_content L data = Inr (JList xs)"
  shows "(xs \<noteq> [] \<and> (\<forall>x \<in> set xs. \<not> is_dict x) \<longrightarrow>
            process_ptf_data L data = Inl (KeyError ''datetime'')
            \<and> process_smf_data L data = Inl (KeyError ''datetime''))
       \<and> (process_ptf_data L data = Inr (DataFrame_columns [''datetime'', ''price'', ''hour''])
            \<longleftrightarrow> xs = [])
       \<and> (process_smf_data L data
            = Inr (DataFrame_columns [''datetime'', ''up_price'', ''down_price'', ''direction''])
            \<longleftrightarrow> xs = [])"
proof (intro conjI impI)
  assume a: "xs \<noteq> [] \<and> (\<forall>x \<in> set xs. \<not> is_dict x)"
  then have "for_records (ptf_item L) xs = Inr []"
    by (intro for_records_no_dict) (simp_all add: ptf_item_no_dict)
  then show "process_ptf_data L data = Inl (KeyError ''datetime'')"
    using a assms by (simp add: process_ptf_data_list sort_values_def DataFrame_records_def)
  from a have "for_records (smf_item L) xs = Inr []"
    by (intro for_records_no_dict) (simp_all add: smf_item_no_dict)
  then show "process_smf_data L data = Inl (KeyError ''datetime'')"
    using a assms by (simp add: process_smf_data_list sort_values_def DataFrame_records_def)
next
  show "process_ptf_data L data = Inr (DataFrame_columns [''datetime'', ''price'', ''hour''])
            \<longleftrightarrow> xs = []"
  proof
    assume r: "process_ptf_data L data = Inr (DataFrame_columns [''datetime'', ''price'', ''hour''])"
    show "xs = []"
    proof (rule ccontr)
      assume "xs \<noteq> []"
      with r assms show False
        by (auto simp: process_ptf_data_list and_then_eq_Inr DataFrame_columns_def
                 dest!: set_index_Inr)
    qed
  next
    assume "xs = []"
    then show "process_ptf_data L data = Inr (DataFrame_columns [''datetime'', ''price'', ''hour''])"
      using assms by (simp add: process_ptf_data_def)
  qed
next
  show "process_smf_data L data
            = Inr (DataFrame_columns [''datetime'', ''up_price'', ''down_price'', ''direction''])
            \<longleftrightarrow> xs = []"
  proof
    assume r: "process_smf_data L data
            = Inr (DataFrame_columns [''datetime'', ''up_price'', ''down_price'', ''direction''])"
    show "xs = []"
    proof (rule ccontr)
      assume "xs \<noteq> []"
      with r assms show False
        by (auto simp: process_smf_data_list and_then_eq_Inr DataFrame_columns_def
                 dest!: set_index_Inr)
    qed
  next
    assume "xs = []"
    then show "process_smf_data L data
            = Inr (DataFrame_columns [''datetime'', ''up_price'', ''down_price'', ''direction''])"
      using assms by (simp add: process_smf_data_def)
  qed
qed

text \<open>C10 on a bare list of strings, on an envelope of numbers, and on an empty envelope.\<close>

theorem price_tables_key_error_witness:
  "process_ptf_data example_lib (JList [JStr ''a'', JStr ''b'']) = Inl (KeyError ''datetime'')
   \<and> process_smf_data example_lib (JDict [(''items'', JList [JInt 1])]) = Inl (KeyError ''datetime'')
   \<and> process_ptf_data example_lib (JDict [(''items'', JList [])])
       = Inr (DataFrame_columns [''datetime'', ''price'', ''hour''])"
proof -
  have 1: "extract_content example_lib (JList [JStr ''a'', JStr ''b'']) = Inr (JList [JStr ''a'', JStr ''b''])"
    by (simp add: extract_content_def)
  have 2: "extract_content example_lib (JDict [(''items'', JList [JInt 1])]) = Inr (JList [JInt 1])"
    by (simp add: extract_content_def)
  have 3: "extract_content example_lib (JDict [(''items'', JList [])]) = Inr (JList [])"
    by (simp add: extract_content_def)
  from price_tables_key_error_without_records[OF 1] price_tables_key_error_without_records[OF 2] price_tables_key_error_without_records[OF 3] show ?thesis by simp
qed

lemma sort_values_Inr:
  assumes "sort_values df by = Inr df'"
  shows "mset (rows df') = mset (rows df) \<and> columns df' = columns df
         \<and> index_name df' = index_name df"
proof -
  have "mset (filter (\<lambda>r. row_time by r \<noteq> NaT) (rows df))
          + mset (filter (\<lambda>r. row_time by r = NaT) (rows df)) = mset (rows df)"
    by (induction "rows df") (auto simp: mset_filter)
  then show ?thesis
    using assms by (auto simp: sort_values_def Let_def split: if_splits)
qed

lemma for_records_member:
  "for_records f xs = Inr rs \<Longrightarrow> x \<in> set xs \<Longrightarrow> \<exists>r. f x = Inr r \<and> set r \<subseteq> set rs"
proof (induction xs arbitrary: rs)
  case Nil
  then show ?case by simp
next
  case (Cons y ys)
  from Cons.prems(1) obtain r rest where
    r: "f y = Inr r" and rest: "for_records f ys = Inr rest" and rs: "rs = r @ rest"
    by (auto simp: and_then_eq_Inr)
  show ?case
  proof (cases "x = y")
    case True
    then show ?thesis using r rs by auto
  next
    case False
    with Cons.prems(2) have "x \<in> set ys" by simp
    from Cons.IH[OF rest this] show ?thesis using rs by auto
  qed
qed

lemma ptf_item_length: "ptf_item L x = Inr r \<Longrightarrow> length r = (if is_dict x then 1 else 0)"
  by (cases x) (auto simp: ptf_item_def and_then_eq_Inr)

lemma for_records_length:
  "for_records f xs = Inr rs \<Longrightarrow> (\<And>x r. f x = Inr r \<Longrightarrow> length r = (if P x then 1 else 0))
   \<Longrightarrow> length rs = length (filter P xs)"
proof (induction xs arbitrary: rs)
  case Nil
  then show ?case by simp
next
  case (Cons y ys)
  from Cons.prems(1) obtain r rest where
    r: "f y = Inr r" and rest: "for_records f ys = Inr rest" and rs: "rs = r @ rest"
    by (auto simp: and_then_eq_Inr)
  from Cons.IH[OF rest Cons.prems(2)] have "length rest = length (filter P ys)" by simp
  moreover from Cons.prems(2)[OF r] have "length r = (if P y then 1 else 0)" .
  ultimately show ?case using rs by simp
qed

lemma parse_datetime_total: "\<exists>t. parse_datetime L v = Inr t"
  by (simp add: parse_datetime_def try_except_def split: sum.splits)

text \<open>
  C9.  Timestamp parsing returns for every argument, strings included: for a string it is
  the timestamp the library parses (with the general parser when the string contains
  \<open>T\<close>, with the format \<open>%Y-%m-%d\<close> otherwise) and \<open>NaT\<close> when the library raises.  When
  \<open>process_ptf_data\<close> returns a table for a content list, the table has one row for each
  dict of the list, and a dict whose date parses to \<open>NaT\<close> has its row in the table, with
  \<open>NaT\<close> as its timestamp; a content list of one such record, with a price and an hour that
  convert, does give a table, of that one row.
\<close>

theorem parse_datetime_never_raises:
  "(\<exists>t. parse_datetime L v = Inr t)
   \<and> parse_datetime L (JStr s) =
       Inr (case (if str_contains ''T'' s then to_datetime L (JStr s) else to_datetime_ymd L (JStr s)) of
              Inl e \<Rightarrow> NaT | Inr t \<Rightarrow> t)
   \<and> (process_ptf_data L data = Inr df \<and> extract_content L data = Inr (JList xs)
        \<and> JDict kvs \<in> set xs \<and> parse_datetime L (dict_get kvs ''date'' (JStr [])) = Inr NaT
      \<longrightarrow> length (rows df) = length (filter is_dict xs)
          \<and> (\<exists>price hour.
                py_float L (py_or L (dict_get kvs ''price'' (JInt 0)) (dict_get kvs ''value'' (JInt 0)))
                  = Inr price
                \<and> py_int L (dict_get kvs ''hour'' (JInt 0)) = Inr hour
                \<and> ptf_record NaT price hour
                    \<in> set (rows df)))
   \<and> (parse_datetime L (dict_get kvs ''date'' (JStr [])) = Inr NaT
        \<and> py_float L (py_or L (dict_get kvs ''price'' (JInt 0)) (dict_get kvs ''value'' (JInt 0)))
            = Inr price
        \<and> py_int L (dict_get kvs ''hour'' (JInt 0)) = Inr hour
      \<longrightarrow> process_ptf_data L (JList [JDict kvs])
            = Inr \<lparr>columns = [''price'', ''hour''], index_name = Some ''datetime'',
                   rows = [ptf_record NaT price hour]\<rparr>)"
proof (intro conjI impI)
  show "\<exists>t. parse_datetime L v = Inr t" by (rule parse_datetime_total)
next
  show "parse_datetime L (JStr s) =
       Inr (case (if str_contains ''T'' s then to_datetime L (JStr s) else to_datetime_ymd L (JStr s)) of
              Inl e \<Rightarrow> NaT | Inr t \<Rightarrow> t)"
    by (simp add: parse_datetime_def try_except_def split: sum.splits)
next
  assume a: "process_ptf_data L data = Inr df \<and> extract_content L data = Inr (JList xs)
        \<and> JDict kvs \<in> set xs \<and> parse_datetime L (dict_get kvs ''date'' (JStr [])) = Inr NaT"
  then have ne: "xs \<noteq> []" by auto
  from a ne obtain records sorted where
    recs: "for_records (ptf_item L) xs = Inr records"
    and srt: "sort_values (DataFrame_records records) ''datetime'' = Inr sorted"
    and idx: "set_index sorted ''datetime'' = Inr df"
    by (auto simp: process_ptf_data_list and_then_eq_Inr)
  have ms: "mset (rows df) = mset records"
    using sort_values_Inr[OF srt] set_index_Inr[OF idx] by (simp add: DataFrame_records_def)
  then have "length (rows df) = length records" by (metis size_mset)
  also have "\<dots> = length (filter is_dict xs)"
    using for_records_length[OF recs] ptf_item_length by blast
  finally show "length (rows df) = length (filter is_dict xs)" .
  from a for_records_member[OF recs, of "JDict kvs"]
  obtain r where r: "ptf_item L (JDict kvs) = Inr r" "set r \<subseteq> set records" by auto
  from ms have st: "set (rows df) = set records" by (metis set_mset_mset)
  from r(1) a obtain price hour where
    "py_float L (py_or L (dict_get kvs ''price'' (JInt 0)) (dict_get kvs ''value'' (JInt 0))) = Inr price"
    "py_int L (dict_get kvs ''hour'' (JInt 0)) = Inr hour"
    "r = [ptf_record NaT price hour]"
    by (auto simp: ptf_item_def and_then_eq_Inr)
  then show "\<exists>price hour.
                py_float L (py_or L (dict_get kvs ''price'' (JInt 0)) (dict_get kvs ''value'' (JInt 0)))
                  = Inr price
                \<and> py_int L (dict_get kvs ''hour'' (JInt 0)) = Inr hour
                \<and> ptf_record NaT price hour
                    \<in> set (rows df)"
    using r(2) st by auto
next
  assume "parse_datetime L (dict_get kvs ''date'' (JStr [])) = Inr NaT
        \<and> py_float L (py_or L (dict_get kvs ''price'' (JInt 0)) (dict_get kvs ''value'' (JInt 0)))
            = Inr price
        \<and> py_int L (dict_get kvs ''hour'' (JInt 0)) = Inr hour"
  then show "process_ptf_data L (JList [JDict kvs])
            = Inr \<lparr>columns = [''price'', ''hour''], index_name = Some ''datetime'',
                   rows = [ptf_record NaT price hour]\<rparr>"
    by (simp add: process_ptf_data_def extract_content_def ptf_item_def ptf_record_def
          sort_values_def DataFrame_records_def set_index_def row_time_def Let_def)
qed

text \<open>C9 on two records, the first with the date \<open>n/a\<close>: its row is kept, after the other.\<close>

theorem parse_datetime_never_raises_witness:
  "parse_datetime example_lib (JStr ''n/a'') = Inr NaT
   \<and> parse_datetime example_lib (JStr ''2024-01-01'') = Inr (Timestamp (473352 * HOUR_NS) None)
   \<and> process_ptf_data example_lib ptf_example
       = Inr \<lparr>columns = [''price'', ''hour''], index_name = Some ''datetime'',
              rows = [ptf_record (Timestamp (473352 * HOUR_NS) None) (201 / 2) 3,
                      ptf_record NaT 5 0]\<rparr>
   \<and> process_ptf_data example_lib (JList [JDict [(''date'', JStr ''n/a''), (''price'', JInt 5)]])
       = Inr \<lparr>columns = [''price'', ''hour''], index_name = Some ''datetime'',
              rows = [ptf_record NaT 5 0]\<rparr>"
proof -
  have p: "parse_datetime example_lib (dict_get [(''date'', JStr ''n/a''), (''price'', JInt 5)] ''date'' (JStr []))
             = Inr NaT"
    by (simp add: parse_datetime_def try_except_def example_lib_def dict_get_def startswith_def)
  have f: "py_float example_lib (py_or example_lib
              (dict_get [(''date'', JStr ''n/a''), (''price'', JInt 5)] ''price'' (JInt 0))
              (dict_get [(''date'', JStr ''n/a''), (''price'', JInt 5)] ''value'' (JInt 0))) = Inr 5"
    by (simp add: py_or_def example_lib_def dict_get_def)
  have h: "py_int example_lib (dict_get [(''date'', JStr ''n/a''), (''price'', JInt 5)] ''hour'' (JInt 0)) = Inr 0"
    by (simp add: dict_get_def)
  have d: "process_ptf_data example_lib ptf_example
       = Inr \<lparr>columns = [''price'', ''hour''], index_name = Some ''datetime'',
              rows = [ptf_record (Timestamp (473352 * HOUR_NS) None) (201 / 2) 3,
                      ptf_record NaT 5 0]\<rparr>"
    by (simp add: process_ptf_data_def ptf_example_def extract_content_def ptf_item_def
          ptf_record_def parse_datetime_def try_except_def example_lib_def dict_get_def py_or_def
          startswith_def sort_values_def DataFrame_records_def set_index_def row_time_def Let_def
          HOUR_NS_def)
  have x: "extract_content example_lib ptf_example
             = Inr (JList [JDict [(''date'', JStr ''n/a''), (''price'', JInt 5)],
                           JDict [(''date'', JStr ''2024-01-01''), (''price'', JFloat (201 / 2)),
                                  (''hour'', JInt 3)]])"
    by (simp add: extract_content_def ptf_example_def)
  from parse_datetime_never_raises[of example_lib "JStr ''n/a''" "''2024-01-01''" ptf_example
         "\<lparr>columns = [''price'', ''hour''], index_name = Some ''datetime'',
              rows = [ptf_record (Timestamp (473352 * HOUR_NS) None) (201 / 2) 3,
                      ptf_record NaT 5 0]\<rparr>"
         "[JDict [(''date'', JStr ''n/a''), (''price'', JInt 5)],
           JDict [(''date'', JStr ''2024-01-01''), (''price'', JFloat (201 / 2)), (''hour'', JInt 3)]]"
         "[(''date'', JStr ''n/a''), (''price'', JInt 5)]" 5 0] p f h d x
  show ?thesis by (simp add: example_lib_def dict_get_def startswith_def)
qed









lemma generation_record_time [simp]:
  "map_of (generation_record kvs dt ty v) ''datetime'' = Some (CTime dt)"
  by (simp add: generation_record_def)

lemma kgup_record_time [simp]:
  "map_of (kgup_record kvs dt v) ''datetime'' = Some (CTime dt)"
  by (simp add: kgup_record_def)



section \<open>The batch fetchers\<close>

lemma overview_loop_entries:
  "distinct names \<Longrightarrow>
   \<exists>d. overview_loop await names = Inr d \<and> map fst d = names
        \<and> (\<forall>name \<in> set names.
              map_of d name = Some (case await name of Inr v \<Rightarrow> v | Inl e \<Rightarrow> (if name \<noteq> ''uevcb_list'' then Frame (DataFrame_columns []) else Listing [])))"
proof (induction names)
  case Nil
  then show ?case by simp
next
  case (Cons n ns)
  then obtain d where d: "overview_loop await ns = Inr d" "map fst d = ns"
    "\<forall>name \<in> set ns. map_of d name = Some (case await name of Inr v \<Rightarrow> v | Inl e \<Rightarrow> (if name \<noteq> ''uevcb_list'' then Frame (DataFrame_columns []) else Listing []))"
    by auto
  from Cons.prems have "n \<notin> set ns" by simp
  then show ?case using d
    by (cases "await n") (auto simp: try_except_def)
qed

lemma dashboard_entry_cons: "name \<noteq> n \<Longrightarrow> dashboard_entry L now ((n, df) # d) name res = dashboard_entry L now d name res"
  by (cases res) (auto simp: dashboard_entry_def)

lemma dashboard_loop_entries:
  assumes "distinct (map fst xs)"
    and "\<And>name r. (name, Inr r) \<in> set xs \<Longrightarrow> \<exists>df. process_dashboard_data L (now name) r = Inr df"
  shows "\<exists>d. dashboard_loop L now xs = Inr d \<and> map fst d = map fst xs
        \<and> (\<forall>name res. (name, res) \<in> set xs \<longrightarrow> dashboard_entry L now d name res)"
  using assms
proof (induction xs)
  case Nil
  then show ?case by simp
next
  case (Cons x xs)
  obtain n res where x: "x = (n, res)" by (cases x)
  have "distinct (map fst xs)" using Cons.prems(1) by simp
  moreover have "\<And>name r. (name, Inr r) \<in> set xs \<Longrightarrow> \<exists>df. process_dashboard_data L (now name) r = Inr df"
    using Cons.prems(2) by simp
  ultimately obtain d where d: "dashboard_loop L now xs = Inr d" "map fst d = map fst xs"
    "\<forall>name res. (name, res) \<in> set xs \<longrightarrow> dashboard_entry L now d name res"
    using Cons.IH by blast
  from Cons.prems(1) x have n: "\<And>name res. (name, res) \<in> set xs \<Longrightarrow> name \<noteq> n" by force
  obtain df0 where df0: "(case res of Inl e \<Rightarrow> Inr (DataFrame_columns [])
                          | Inr r \<Rightarrow> process_dashboard_data L (now n) r) = Inr df0"
  proof (cases res)
    case (Inl e)
    then show ?thesis using that by simp
  next
    case (Inr r)
    with Cons.prems(2)[of n r] x show ?thesis using that by auto
  qed
  have 1: "dashboard_loop L now (x # xs) = Inr ((n, df0) # d)"
    using x d(1) df0 by simp
  have 2: "map fst ((n, df0) # d) = map fst (x # xs)" using x d(2) by simp
  have 3: "dashboard_entry L now ((n, df0) # d) name res'" if "(name, res') \<in> set (x # xs)" for name res'
  proof (cases "(name, res') = x")
    case True
    with x df0 show ?thesis by (auto simp: dashboard_entry_def split: sum.splits)
  next
    case False
    with that have m: "(name, res') \<in> set xs" by simp
    from n[OF m] d(3) m show ?thesis by (simp add: dashboard_entry_cons)
  qed
  from 1 2 3 show ?case by blast
qed

text \<open>
  C3, as amended.  \<open>fetch_organization_overview\<close> never raises and returns one entry per
  task: the value of the task when it returned and, when it raised, an empty table, or an
  empty list for the entry \<open>uevcb_list\<close>.  \<open>fetch_dashboard_data\<close> returns one entry per
  endpoint, the empty table for a task that raised and the normalized payload for the
  others, provided that normalizing each payload that was fetched does not raise.
\<close>

theorem batch_isolates_failed_subfetches:
  "(\<exists>d. fetch_organization_overview await = Inr d \<and> map fst d = overview_tasks
        \<and> (\<forall>name \<in> set overview_tasks.
              map_of d name =
                Some (case await name of
                        Inr v \<Rightarrow> v
                      | Inl e \<Rightarrow> if name \<noteq> ''uevcb_list'' then Frame (DataFrame_columns [])
                                 else Listing [])))
   \<and> ((\<forall>name endpoint r. (name, endpoint) \<in> set dashboard_endpoints \<and> client_get endpoint = Inr r
          \<longrightarrow> (\<exists>df. process_dashboard_data L (now name) r = Inr df))
      \<longrightarrow> (\<exists>d. fetch_dashboard_data L now client_get = Inr d
              \<and> map fst d = map fst dashboard_endpoints
              \<and> (\<forall>name endpoint. (name, endpoint) \<in> set dashboard_endpoints
                    \<longrightarrow> dashboard_entry L now d name (client_get endpoint))))"
proof (intro conjI impI)
  have "distinct overview_tasks" by (simp add: overview_tasks_def)
  from overview_loop_entries[OF this, of await]
  show "\<exists>d. fetch_organization_overview await = Inr d \<and> map fst d = overview_tasks
        \<and> (\<forall>name \<in> set overview_tasks.
              map_of d name =
                Some (case await name of
                        Inr v \<Rightarrow> v
                      | Inl e \<Rightarrow> if name \<noteq> ''uevcb_list'' then Frame (DataFrame_columns [])
                                 else Listing []))"
    by (simp add: fetch_organization_overview_def)
next
  assume ok: "\<forall>name endpoint r. (name, endpoint) \<in> set dashboard_endpoints \<and> client_get endpoint = Inr r
          \<longrightarrow> (\<exists>df. process_dashboard_data L (now name) r = Inr df)"
  let ?xs = "map (\<lambda>(name, endpoint). (name, client_get endpoint)) dashboard_endpoints"
  have dist: "distinct (map fst ?xs)" by (simp add: dashboard_endpoints_def)
  have fst: "map fst ?xs = map fst dashboard_endpoints" by (simp add: dashboard_endpoints_def)
  have pr: "\<exists>df. process_dashboard_data L (now name) r = Inr df" if "(name, Inr r) \<in> set ?xs" for name r
    using that ok by auto
  have "\<exists>d. dashboard_loop L now ?xs = Inr d \<and> map fst d = map fst ?xs
        \<and> (\<forall>name res. (name, res) \<in> set ?xs \<longrightarrow> dashboard_entry L now d name res)"
    by (rule dashboard_loop_entries[where L = L and now = now], rule dist, rule pr)
  then obtain d where d: "dashboard_loop L now ?xs = Inr d" "map fst d = map fst ?xs"
    "\<forall>name res. (name, res) \<in> set ?xs \<longrightarrow> dashboard_entry L now d name res" by blast
  have "dashboard_entry L now d name (client_get endpoint)"
    if "(name, endpoint) \<in> set dashboard_endpoints" for name endpoint
  proof -
    from that have "(name, client_get endpoint) \<in> set ?xs" by force
    with d(3) show ?thesis by blast
  qed
  with d(1,2) fst show "\<exists>d. fetch_dashboard_data L now client_get = Inr d
              \<and> map fst d = map fst dashboard_endpoints
              \<and> (\<forall>name endpoint. (name, endpoint) \<in> set dashboard_endpoints
                    \<longrightarrow> dashboard_entry L now d name (client_get endpoint))"
    by (simp add: fetch_dashboard_data_def)
qed

lemma metric_payload_table:
  "process_dashboard_data example_lib nw metric_payload =
     Inr (metric_table)"
  by (simp add: process_dashboard_data_def metric_payload_def metric_table_def dashboard_item_def
        parse_datetime_def try_except_def example_lib_def dict_get_def)

text \<open>
  C3 as stated fails.  In a dashboard batch where one task raises and another returns a
  payload whose body is \<open>null\<close>, the batch call itself raises (\<open>TypeError\<close>).  In an overview
  batch where the task \<open>uevcb_list\<close> raises, its entry is an empty list, not an empty table.
\<close>

theorem dashboard_batch_raises_on_bad_payload:
  "dashboard_null_body ''/dashboard/balancing-power-market'' = Inl ConnectionError
   \<and> fetch_dashboard_data example_lib still_clock dashboard_null_body = Inl TypeError
   \<and> overview_two_down ''uevcb_list'' = Inl ConnectionError
   \<and> fetch_organization_overview overview_two_down =
       Inr [(''uevcb_list'', Listing []),
            (''generation'', Frame (DataFrame_columns [])),
            (''kgup'', Frame (DataFrame_columns [''kgup''])),
            (''ptf'', Frame (DataFrame_columns [''ptf''])),
            (''smf'', Frame (DataFrame_columns [''smf'']))]"
  by (simp add: fetch_dashboard_data_def dashboard_endpoints_def dashboard_null_body_def
        process_dashboard_data_def fetch_organization_overview_def overview_tasks_def
        overview_two_down_def try_except_def)

text \<open>
  The amended C3 on an overview batch with two failed tasks and on a dashboard batch with
  one.
\<close>

theorem batch_isolates_failed_subfetches_witness:
  "(\<exists>d. fetch_organization_overview overview_two_down = Inr d
        \<and> map fst d = [''uevcb_list'', ''generation'', ''kgup'', ''ptf'', ''smf'']
        \<and> map_of d ''uevcb_list'' = Some (Listing [])
        \<and> map_of d ''generation'' = Some (Frame (DataFrame_columns []))
        \<and> map_of d ''ptf'' = Some (Frame (DataFrame_columns [''ptf''])))
   \<and> (\<exists>d. fetch_dashboard_data example_lib still_clock dashboard_one_down = Inr d
        \<and> map fst d = [''bpm'', ''dam'', ''idm'', ''consumption'', ''generation'', ''weighted_price'']
        \<and> map_of d ''bpm'' = Some (DataFrame_columns [])
        \<and> map_of d ''dam'' =
            Some (metric_table))"
proof -
  have ok: "\<forall>name endpoint r. (name, endpoint) \<in> set dashboard_endpoints
              \<and> dashboard_one_down endpoint = Inr r
          \<longrightarrow> (\<exists>df. process_dashboard_data example_lib (still_clock name) r = Inr df)"
    by (auto simp: dashboard_one_down_def metric_payload_table split: if_splits)
  note inst = batch_isolates_failed_subfetches[of overview_two_down dashboard_one_down example_lib still_clock]
  from inst obtain d1 where d1: "fetch_organization_overview overview_two_down = Inr d1"
    "map fst d1 = overview_tasks"
    "\<forall>name \<in> set overview_tasks.
       map_of d1 name =
         Some (case overview_two_down name of
                 Inr v \<Rightarrow> v
               | Inl e \<Rightarrow> if name \<noteq> ''uevcb_list'' then Frame (DataFrame_columns [])
                          else Listing [])"
    by metis
  from inst ok obtain d2 where d2: "fetch_dashboard_data example_lib still_clock dashboard_one_down = Inr d2"
    "map fst d2 = map fst dashboard_endpoints"
    "\<forall>name endpoint. (name, endpoint) \<in> set dashboard_endpoints
        \<longrightarrow> dashboard_entry example_lib still_clock d2 name (dashboard_one_down endpoint)"
    by metis
  have o: "map_of d1 ''uevcb_list'' = Some (Listing [])"
    "map_of d1 ''generation'' = Some (Frame (DataFrame_columns []))"
    "map_of d1 ''ptf'' = Some (Frame (DataFrame_columns [''ptf'']))"
    using d1(3) by (simp_all add: overview_tasks_def overview_two_down_def)
  have b: "map_of d2 ''bpm'' = Some (DataFrame_columns [])"
    using d2(3)[rule_format, of "''bpm''" "''/dashboard/balancing-power-market''"]
    by (simp add: dashboard_endpoints_def dashboard_entry_def dashboard_one_down_def)
  have m: "map_of d2 ''dam'' =
            Some (metric_table)"
    using d2(3)[rule_format, of "''dam''" "''/dashboard/day-ahead-market''"]
    by (simp add: dashboard_endpoints_def dashboard_entry_def dashboard_one_down_def
          metric_payload_table split: option.splits)
  show ?thesis
  proof (intro conjI)
    show "\<exists>d. fetch_organization_overview overview_two_down = Inr d
        \<and> map fst d = [''uevcb_list'', ''generation'', ''kgup'', ''ptf'', ''smf'']
        \<and> map_of d ''uevcb_list'' = Some (Listing [])
        \<and> map_of d ''generation'' = Some (Frame (DataFrame_columns []))
        \<and> map_of d ''ptf'' = Some (Frame (DataFrame_columns [''ptf'']))"
      using d1(1,2) o by (intro exI[of _ d1]) (simp add: overview_tasks_def)
    show "\<exists>d. fetch_dashboard_data example_lib still_clock dashboard_one_down = Inr d
        \<and> map fst d = [''bpm'', ''dam'', ''idm'', ''consumption'', ''generation'', ''weighted_price'']
        \<and> map_of d ''bpm'' = Some (DataFrame_columns [])
        \<and> map_of d ''dam'' =
            Some (metric_table)"
      using d2(1,2) b m by (intro exI[of _ d2]) (simp add: dashboard_endpoints_def)
  qed
qed

section \<open>The pagination driver\<close>

lemma remaining_pages_mock:
  assumes "0 < sz"
  shows "length ds \<le> (k + left) * sz \<Longrightarrow>
         remaining_pages (\<lambda>n. mock_server ds ep rq n sz) (Suc k) left (take (k * sz) ds) = Inr ds"
proof (induction left arbitrary: k)
  case 0
  then show ?case by simp
next
  case (Suc left)
  let ?page = "take sz (drop (k * sz) ds)"
  show ?case
  proof (cases "?page = []")
    case True
    with assms have "drop (k * sz) ds = []" by (cases "drop (k * sz) ds") auto
    then have "take (k * sz) ds = ds" by simp
    with True show ?thesis by (simp add: mock_server_def)
  next
    case False
    have "Suc k * sz = k * sz + sz" by simp
    then have "take (k * sz) ds @ ?page = take (Suc k * sz) ds"
      by (simp only: take_add)
    moreover from Suc.prems have "length ds \<le> (Suc k + left) * sz" by simp
    ultimately show ?thesis
      using False Suc.IH[of "Suc k"] by (simp add: mock_server_def)
  qed
qed

lemma pages_cover: "0 < sz \<Longrightarrow> n \<le> (1 + ((n + sz - 1) div sz - 1)) * (sz :: nat)"
proof -
  assume sz: "0 < sz"
  show ?thesis
  proof (cases "n = 0")
    case True
    then show ?thesis by simp
  next
    case False
    then have "0 < (n + sz - 1) div sz" using sz by (simp add: div_greater_zero_iff)
    then have "(1 + ((n + sz - 1) div sz - 1)) * sz = ((n + sz - 1) div sz) * sz" by simp
    also have "\<dots> = (n + sz - 1) - (n + sz - 1) mod sz"
      by (simp add: minus_mod_eq_div_mult)
    also have "\<dots> \<ge> n"
    proof -
      have "(n + sz - 1) mod sz < sz" using sz by simp
      then show ?thesis by linarith
    qed
    finally show ?thesis .
  qed
qed

lemma get_paginated_mock:
  assumes "0 < size_wanted"
  shows "get_paginated size_wanted (mock_server ds) ep rq = Inr ds"
proof -
  let ?sz = "min size_wanted MAX_PAGE_SIZE"
  have sz: "0 < ?sz" using assms by (simp add: MAX_PAGE_SIZE_def)
  from remaining_pages_mock[OF sz, of ds 1 "(length ds + ?sz - 1) div ?sz - 1" ep rq]
       pages_cover[OF sz, of "length ds"]
  have "remaining_pages (\<lambda>n. mock_server ds ep rq n ?sz) 2 ((length ds + ?sz - 1) div ?sz - 1)
          (take ?sz ds) = Inr ds"
    by (simp add: numeral_2_eq_2)
  then show ?thesis
    by (simp add: get_paginated_def Let_def mock_server_def)
qed

text \<open>
  C2.  For every date range with \<open>start_date \<le> end_date\<close> the request of \<open>fetch_ptf_data\<close>
  passes its validator, and for every positive page size the pagination driver, run
  against a server that pages the list of records \<open>ds\<close>, returns exactly \<open>ds\<close>: every
  record once, in order, none missing, which is what one fetch with an unbounded page
  size returns; \<open>fetch_ptf_data\<close> then normalizes that list.
\<close>

theorem paginated_fetch_returns_all_records:
  "start_date \<le> end_date \<and> 0 < size_wanted \<longrightarrow>
     (\<exists>request.
        MarketDataRequest_init (combine_min_time start_date) (combine_max_time end_date) = Inr request
        \<and> get_paginated size_wanted (mock_server ds) DAM_MCP request = Inr ds
        \<and> get_paginated size_wanted (mock_server ds) DAM_MCP request
            = unbounded_fetch ds DAM_MCP request
        \<and> fetch_ptf_data L
             (\<lambda>endpoint rq. and_then (get_paginated size_wanted (mock_server ds) endpoint rq)
                               (\<lambda>records. Inr (JList records)))
             start_date end_date
            = process_ptf_data L (JList ds))"
proof
  assume a: "start_date \<le> end_date \<and> 0 < size_wanted"
  then have "start_date * DAY_US \<le> end_date * DAY_US" by (simp add: DAY_US_def)
  then have "\<not> combine_max_time end_date < combine_min_time start_date"
    by (simp add: combine_max_time_def combine_min_time_def DAY_US_def)
  then obtain request where
    r: "MarketDataRequest_init (combine_min_time start_date) (combine_max_time end_date) = Inr request"
    by (simp add: MarketDataRequest_init_def)
  from a have p: "\<And>ep rq. get_paginated size_wanted (mock_server ds) ep (rq :: MarketDataRequest) = Inr ds"
    by (simp add: get_paginated_mock)
  have u: "unbounded_fetch ds DAM_MCP request = Inr ds"
    by (simp add: unbounded_fetch_def mock_server_def)
  show "\<exists>request.
        MarketDataRequest_init (combine_min_time start_date) (combine_max_time end_date) = Inr request
        \<and> get_paginated size_wanted (mock_server ds) DAM_MCP request = Inr ds
        \<and> get_paginated size_wanted (mock_server ds) DAM_MCP request
            = unbounded_fetch ds DAM_MCP request
        \<and> fetch_ptf_data L
             (\<lambda>endpoint rq. and_then (get_paginated size_wanted (mock_server ds) endpoint rq)
                               (\<lambda>records. Inr (JList records)))
             start_date end_date
            = process_ptf_data L (JList ds)"
    using r p u by (intro exI[of _ request]) (simp add: fetch_ptf_data_def)
qed

text \<open>C2 on five records fetched in pages of two, for the days 10 to 12.\<close>

theorem paginated_fetch_returns_all_records_witness:
  "(10 :: int) \<le> 12 \<and> (0 :: nat) < 2
   \<and> (\<exists>request.
        MarketDataRequest_init (combine_min_time 10) (combine_max_time 12) = Inr request
        \<and> get_paginated 2 (mock_server [JInt 1, JInt 2, JInt 3, JInt 4, JInt 5 :: rat json]) DAM_MCP request
            = Inr [JInt 1, JInt 2, JInt 3, JInt 4, JInt 5])"
  using paginated_fetch_returns_all_records[of 10 12 2 "[JInt 1, JInt 2, JInt 3, JInt 4, JInt 5 :: rat json]" example_lib]
  by auto

end
